theory Spec2Isabelle
  imports Main "HOL-Library.Sublist"
begin

section \<open>JavaScript values and JSON documents\<close>

text \<open>
  The Homey MCP server exists in two variants: \<^verbatim>\<open>homey.ts\<close>, which talks to the Homey
  REST API through \<^verbatim>\<open>fetch\<close>, and a demo script with a mock client. Both wrap every
  result in a tool-response envelope whose single text block holds
  \<^verbatim>\<open>JSON.stringify(...)\<close> of an object literal.

  No branch of either program computes with a number: numbers are read from JSON, passed
  on and printed. A number is therefore carried by the text that \<^verbatim>\<open>String(n)\<close> prints:
  the decimal text of a finite \<open>n\<close>, and \<^verbatim>\<open>Infinity\<close>, \<^verbatim>\<open>-Infinity\<close> or \<^verbatim>\<open>NaN\<close>
  for the three values that are not finite, which \<^verbatim>\<open>JSON.stringify\<close> writes as
  \<^verbatim>\<open>null\<close>.
\<close>

datatype number = Number string

fun numberToString :: "number \<Rightarrow> string" where
  "numberToString (Number s) = s"

definition finite_number :: "number \<Rightarrow> bool" where
  "finite_number n =
     (numberToString n \<noteq> ''Infinity'' \<and> numberToString n \<noteq> ''-Infinity''
      \<and> numberToString n \<noteq> ''NaN'')"

definition digit :: "nat \<Rightarrow> char" where
  "digit d = ''0123456789'' ! d"

function show_nat :: "nat \<Rightarrow> string" where
  "show_nat n = (if n < 10 then [digit n] else show_nat (n div 10) @ [digit (n mod 10)])"
  by pat_completeness auto
termination
  by (relation "measure (\<lambda>n. n)") auto

declare show_nat.simps [simp del]

definition number_of_nat :: "nat \<Rightarrow> number" where
  "number_of_nat n = Number (show_nat n)"

text \<open>
  \<open>jsvalue\<close> is what an object literal of the source evaluates to, \<open>Undefined\<close> included;
  \<open>json\<close> is a JSON document, where \<open>undefined\<close> does not exist. A string produced by
  \<^verbatim>\<open>JSON.stringify\<close> is identified with the document it denotes (what
  \<^verbatim>\<open>JSON.parse\<close> gives back), so indentation arguments play no role.
\<close>

datatype jsvalue =
    Undefined
  | Null
  | Boolean bool
  | Num number
  | Str string
  | Array "jsvalue list"
  | Object "(string \<times> jsvalue) list"

datatype json =
    JNull
  | JBool bool
  | JNum number
  | JStr string
  | JArr "json list"
  | JObj "(string \<times> json) list"

text \<open>
  \<^verbatim>\<open>JSON.stringify\<close>: \<open>undefined\<close> at the top gives \<open>undefined\<close> (here \<open>None\<close>), an
  \<open>undefined\<close> array element is written \<open>null\<close>, an object property whose value is
  \<open>undefined\<close> is left out, and a number that is not finite is written \<open>null\<close>.
\<close>

fun JSON_stringify :: "jsvalue \<Rightarrow> json option"
  and stringify_elements :: "jsvalue list \<Rightarrow> json list"
  and stringify_properties :: "(string \<times> jsvalue) list \<Rightarrow> (string \<times> json) list"
where
  "JSON_stringify Undefined = None"
| "JSON_stringify Null = Some JNull"
| "JSON_stringify (Boolean b) = Some (JBool b)"
| "JSON_stringify (Num n) = Some (if finite_number n then JNum n else JNull)"
| "JSON_stringify (Str s) = Some (JStr s)"
| "JSON_stringify (Array xs) = Some (JArr (stringify_elements xs))"
| "JSON_stringify (Object kvs) = Some (JObj (stringify_properties kvs))"
| "stringify_elements [] = []"
| "stringify_elements (x # xs) =
     (case JSON_stringify x of None \<Rightarrow> JNull | Some j \<Rightarrow> j) # stringify_elements xs"
| "stringify_properties [] = []"
| "stringify_properties ((k, v) # kvs) =
     (case JSON_stringify v of None \<Rightarrow> stringify_properties kvs
      | Some j \<Rightarrow> (k, j) # stringify_properties kvs)"

text \<open>JavaScript truthiness, as \<^verbatim>\<open>!x\<close>, \<^verbatim>\<open>x && y\<close> and \<^verbatim>\<open>x || y\<close> test it.\<close>

fun truthy :: "jsvalue \<Rightarrow> bool" where
  "truthy Undefined = False"
| "truthy Null = False"
| "truthy (Boolean b) = b"
| "truthy (Num n) = (numberToString n \<noteq> ''0'' \<and> numberToString n \<noteq> ''NaN'')"
| "truthy (Str s) = (s \<noteq> [])"
| "truthy (Array xs) = True"
| "truthy (Object kvs) = True"

text \<open>The field of a JSON object, and the keys it has.\<close>

fun field :: "json \<Rightarrow> string \<Rightarrow> json option" where
  "field (JObj kvs) k = map_of kvs k"
| "field _ k = None"

fun keys :: "json \<Rightarrow> string list" where
  "keys (JObj kvs) = map fst kvs"
| "keys _ = []"

section \<open>Thrown values and the tool-response envelope\<close>

text \<open>
  A \<^verbatim>\<open>throw\<close> or a rejected promise is the left summand of a sum type. The catch blocks
  of \<^verbatim>\<open>homey.ts\<close> only ask whether the value caught is an \<^verbatim>\<open>Error\<close> and, if so, read
  its message.
\<close>

datatype thrown = Error string | NonError

fun errorMessage :: "thrown \<Rightarrow> string" where
  "errorMessage (Error m) = m"
| "errorMessage NonError = ''Unknown error''"

record content_block =
  type :: string
  text' :: "json option"

record envelope =
  content :: "content_block list"
  isError :: "bool option"

text \<open>The two shapes every handler returns: with no \<open>isError\<close> key, or with \<open>isError: true\<close>.\<close>

definition success_envelope :: "jsvalue \<Rightarrow> envelope" where
  "success_envelope payload =
     \<lparr>content = [\<lparr>type = ''text'', text' = JSON_stringify payload\<rparr>], isError = None\<rparr>"

definition failure_envelope :: "jsvalue \<Rightarrow> envelope" where
  "failure_envelope payload =
     \<lparr>content = [\<lparr>type = ''text'', text' = JSON_stringify payload\<rparr>], isError = Some True\<rparr>"

text \<open>The JSON payload of an envelope: the document in its first text block.\<close>

definition payload_of :: "envelope \<Rightarrow> json option" where
  "payload_of e = (case content e of [] \<Rightarrow> None | b # _ \<Rightarrow> text' b)"

section \<open>The HTTP variant: configuration, token and request helper\<close>

record config =
  HOMEY_CLIENT_ID :: string
  HOMEY_CLIENT_SECRET :: string
  HOMEY_API_URL :: string

record request =
  url :: string
  http_method :: string
  headers :: "(string \<times> string) list"
  body :: "json option"

text \<open>
  What \<^verbatim>\<open>fetch\<close> resolves to, read at the type \<open>'a\<close> the caller casts the parsed body to.
  \<open>response_json\<close> is the outcome of \<^verbatim>\<open>response.json()\<close>, which throws on a body that is
  not JSON; a body that parses is taken at the interface the source declares for it
  (\<^verbatim>\<open>as T\<close> checks nothing at run time). \<open>response_text\<close> is the outcome of
  \<^verbatim>\<open>response.text()\<close>: the body text, or what the promise rejects with when the body
  cannot be read to its end. \<open>ok\<close> and \<open>status\<close> are separate fields, as the code reads
  them separately.
\<close>

record 'a response =
  ok :: bool
  status :: nat
  statusText :: string
  response_text :: "thrown + string"
  response_json :: "thrown + 'a"

type_synonym 'a fetch = "request \<Rightarrow> thrown + 'a response"

definition getHomeyToken :: "config \<Rightarrow> thrown + string" where
  "getHomeyToken cfg =
     (if HOMEY_CLIENT_ID cfg = [] \<or> HOMEY_CLIENT_SECRET cfg = []
      then Inl (Error ''HOMEY_CLIENT_ID and HOMEY_CLIENT_SECRET environment variables must be set'')
      else Inr (HOMEY_CLIENT_SECRET cfg))"

definition request_options :: "config \<Rightarrow> string \<Rightarrow> string \<Rightarrow> string \<Rightarrow> jsvalue \<Rightarrow> request" where
  "request_options cfg token endpoint meth bdy =
     \<lparr>url = HOMEY_API_URL cfg @ endpoint,
      http_method = meth,
      headers = [(''Authorization'', ''Bearer '' @ token),
                 (''Content-Type'', ''application/json'')],
      body = (if truthy bdy \<and> meth \<noteq> ''GET'' then JSON_stringify bdy else None)\<rparr>"

definition api_error_message :: "'a response \<Rightarrow> string \<Rightarrow> string" where
  "api_error_message r errorText =
     ''Homey API request failed: '' @ show_nat (status r) @ '' '' @ statusText r
       @ '' - '' @ errorText"

text \<open>
  \<open>homeyApiRequest\<close> returns its result together with the requests it handed to
  \<^verbatim>\<open>fetch\<close>, in order. A missing credential throws before \<^verbatim>\<open>fetch\<close> is called. On a
  response that is not \<open>ok\<close> the body text is awaited first, outside any \<^verbatim>\<open>try\<close>: if
  that read rejects, its error is what the helper throws.
\<close>

definition homeyApiRequest ::
  "config \<Rightarrow> 'a fetch \<Rightarrow> string \<Rightarrow> string \<Rightarrow> jsvalue \<Rightarrow> (thrown + 'a) \<times> request list" where
  "homeyApiRequest cfg fetch endpoint meth bdy =
     (case getHomeyToken cfg of
        Inl e \<Rightarrow> (Inl e, [])
      | Inr token \<Rightarrow>
          (let options = request_options cfg token endpoint meth bdy in
           case fetch options of
             Inl e \<Rightarrow> (Inl e, [options])
           | Inr r \<Rightarrow>
               if \<not> ok r then
                 (case response_text r of
                    Inl e \<Rightarrow> (Inl e, [options])
                  | Inr errorText \<Rightarrow>
                      (Inl (Error (api_error_message r errorText)), [options]))
               else (response_json r, [options])))"

section \<open>The HTTP variant: devices and the \<open>list_devices\<close> handler\<close>

datatype prim = PBool bool | PNum number | PStr string

fun prim_js :: "prim \<Rightarrow> jsvalue" where
  "prim_js (PBool b) = Boolean b"
| "prim_js (PNum n) = Num n"
| "prim_js (PStr s) = Str s"

text \<open>What a template literal prints for a value.\<close>

fun prim_text :: "prim \<Rightarrow> string" where
  "prim_text (PBool b) = (if b then ''true'' else ''false'')"
| "prim_text (PNum n) = numberToString n"
| "prim_text (PStr s) = s"

record capability_state =
  cap_value :: prim
  cap_type :: "string option"

record zone_ref =
  zone_name :: string

record HomeyDevice =
  device_id :: string
  device_name :: string
  zone :: "zone_ref option"
  device_class :: "string option"
  capabilities :: "string list option"
  capabilitiesObj :: "(string \<times> capability_state) list option"

record HomeyDeviceListResponse =
  result :: "HomeyDevice list"

record HomeyDeviceResponse =
  device_result :: HomeyDevice

fun capability_js :: "capability_state \<Rightarrow> jsvalue" where
  "capability_js c =
     Object ((''value'', prim_js (cap_value c))
             # (case cap_type c of None \<Rightarrow> [] | Some t \<Rightarrow> [(''type'', Str t)]))"

text \<open>\<^verbatim>\<open>x || d\<close> on an optional string: the default also replaces the empty string.\<close>

fun string_or :: "string option \<Rightarrow> string \<Rightarrow> string" where
  "string_or None d = d"
| "string_or (Some s) d = (if s = [] then d else s)"

definition normalize_device :: "HomeyDevice \<Rightarrow> jsvalue" where
  "normalize_device device =
     Object [(''id'', Str (device_id device)),
             (''name'', Str (device_name device)),
             (''zone'', Str (string_or (map_option zone_name (zone device)) ''Unknown'')),
             (''class'', Str (string_or (device_class device) ''Unknown'')),
             (''capabilities'',
                Array (map Str (case capabilities device of None \<Rightarrow> [] | Some cs \<Rightarrow> cs))),
             (''state'',
                Object (map (\<lambda>(k, c). (k, capability_js c))
                   (case capabilitiesObj device of None \<Rightarrow> [] | Some m \<Rightarrow> m)))]"

text \<open>The \<^verbatim>\<open>try\<close> block of \<open>list_devices\<close>: the normalized devices, or what was thrown.\<close>

definition list_devices_try ::
  "config \<Rightarrow> HomeyDeviceListResponse fetch \<Rightarrow> (thrown + jsvalue list) \<times> request list" where
  "list_devices_try cfg fetch =
     (case homeyApiRequest cfg fetch ''/api/devices'' ''GET'' Undefined of
        (Inl e, log) \<Rightarrow> (Inl e, log)
      | (Inr data, log) \<Rightarrow> (Inr (map normalize_device (result data)), log))"

definition list_devices ::
  "config \<Rightarrow> HomeyDeviceListResponse fetch \<Rightarrow> envelope \<times> request list" where
  "list_devices cfg fetch =
     (case list_devices_try cfg fetch of
        (Inr devices, log) \<Rightarrow>
          (success_envelope
             (Object [(''devices'', Array devices),
                      (''count'', Num (number_of_nat (length devices)))]), log)
      | (Inl error, log) \<Rightarrow>
          (failure_envelope
             (Object [(''error'', Str ''Failed to list Homey devices''),
                      (''details'', Str (errorMessage error))]), log))"

section \<open>The HTTP variant: the \<open>toggle_device\<close> handler\<close>

record toggle_args =
  deviceId :: "string option"
  capability :: "string option"
  "value" :: "prim option"

text \<open>
  The upstream as \<open>toggle_device\<close> sees it: the answer to the read of the device, cast to
  \<^verbatim>\<open>{ result: HomeyDevice }\<close>, and the answer to the write, whose body is ignored.
\<close>

record upstream =
  fetch_device :: "HomeyDeviceResponse fetch"
  fetch_capability :: "json fetch"

text \<open>The default of the destructured parameter \<^verbatim>\<open>capability = 'onoff'\<close>.\<close>

definition capability_of :: "toggle_args \<Rightarrow> string" where
  "capability_of args = (case capability args of None \<Rightarrow> ''onoff'' | Some c \<Rightarrow> c)"

text \<open>\<^verbatim>\<open>deviceData.result.capabilitiesObj?.[capability]?.value\<close>; \<open>None\<close> is \<open>undefined\<close>.\<close>

definition currentValue :: "HomeyDeviceResponse \<Rightarrow> string \<Rightarrow> prim option" where
  "currentValue deviceData cap =
     (case capabilitiesObj (device_result deviceData) of
        None \<Rightarrow> None
      | Some m \<Rightarrow> map_option cap_value (map_of m cap))"

definition not_boolean_message :: "string \<Rightarrow> string" where
  "not_boolean_message cap =
     ''Cannot toggle capability \"'' @ cap @ ''\" - current value is not boolean''"

text \<open>The write: \<^verbatim>\<open>PUT /api/devices/{deviceId}/capabilities/{capability}\<close>.\<close>

definition set_capability ::
  "config \<Rightarrow> upstream \<Rightarrow> string \<Rightarrow> string \<Rightarrow> prim \<Rightarrow> (thrown + json) \<times> request list" where
  "set_capability cfg up d cap targetValue =
     homeyApiRequest cfg (fetch_capability up)
       (''/api/devices/'' @ d @ ''/capabilities/'' @ cap) ''PUT''
       (Object [(''value'', prim_js targetValue)])"

text \<open>
  The \<^verbatim>\<open>try\<close> block of \<open>toggle_device\<close>: the target value that was written, or what was
  thrown, with the requests issued on the way.
\<close>

definition toggle_device_try ::
  "config \<Rightarrow> upstream \<Rightarrow> toggle_args \<Rightarrow> (thrown + prim) \<times> request list" where
  "toggle_device_try cfg up args =
     (let cap = capability_of args in
      case deviceId args of
        None \<Rightarrow> (Inl (Error ''deviceId is required''), [])
      | Some d \<Rightarrow>
          if d = [] then (Inl (Error ''deviceId is required''), [])
          else
            (case (case value args of
                     Some v \<Rightarrow> (Inr v, [])
                   | None \<Rightarrow>
                       (case homeyApiRequest cfg (fetch_device up)
                               (''/api/devices/'' @ d) ''GET'' Undefined of
                          (Inl e, log) \<Rightarrow> (Inl e, log)
                        | (Inr deviceData, log) \<Rightarrow>
                            (case currentValue deviceData cap of
                               Some (PBool b) \<Rightarrow> (Inr (PBool (\<not> b)), log)
                             | _ \<Rightarrow> (Inl (Error (not_boolean_message cap)), log)))) of
               (Inl e, log) \<Rightarrow> (Inl e, log)
             | (Inr targetValue, log) \<Rightarrow>
                 (case set_capability cfg up d cap targetValue of
                    (Inl e, log') \<Rightarrow> (Inl e, log @ log')
                  | (Inr _, log') \<Rightarrow> (Inr targetValue, log @ log'))))"

definition deviceId_js :: "toggle_args \<Rightarrow> jsvalue" where
  "deviceId_js args = (case deviceId args of None \<Rightarrow> Undefined | Some d \<Rightarrow> Str d)"

definition toggle_device :: "config \<Rightarrow> upstream \<Rightarrow> toggle_args \<Rightarrow> envelope \<times> request list" where
  "toggle_device cfg up args =
     (case toggle_device_try cfg up args of
        (Inr targetValue, log) \<Rightarrow>
          (success_envelope
             (Object [(''success'', Boolean True),
                      (''deviceId'', deviceId_js args),
                      (''capability'', Str (capability_of args)),
                      (''value'', prim_js targetValue),
                      (''message'', Str (''Successfully set '' @ capability_of args @ '' to ''
                                          @ prim_text targetValue))]), log)
      | (Inl error, log) \<Rightarrow>
          (failure_envelope
             (Object [(''error'', Str ''Failed to toggle Homey device''),
                      (''details'', Str (errorMessage error)),
                      (''deviceId'', deviceId_js args)]), log))"

section \<open>The mock variant: client and handlers\<close>

text \<open>
  The demo script keeps one \<^verbatim>\<open>HomeyApiClient\<close>, whose only state that changes is the
  access token. Its methods return fixed data; every \<^verbatim>\<open>throw\<close> in the client is
  \<^verbatim>\<open>throw new Error(m)\<close>, so a failing call is \<open>Inl m\<close> with the message \<open>m\<close>, which is
  what the catch blocks of this variant read (\<^verbatim>\<open>error.message\<close>). The diagnostics written
  with \<^verbatim>\<open>console.error\<close> are left out. The script exits at start-up when
  \<^verbatim>\<open>CLIENT_ID\<close> or \<^verbatim>\<open>CLIENT_SECRET\<close> is missing, before any tool is registered; the
  handlers below are those of a server that started.
\<close>

record HomeyApiClient =
  clientId :: string
  clientSecret :: string
  apiUrl :: string
  accessToken :: "string option"

record mock_device =
  mock_id :: string
  mock_name :: string
  mock_class :: string
  mock_capabilities :: "string list"
  mock_capabilitiesObj :: "(string \<times> prim) list"
  mock_zone :: string

record flow =
  flow_id :: string
  flow_name :: string
  enabled :: bool
  trigger :: string
  actions :: "string list"

record toggle_result =
  toggled_deviceId :: string
  deviceName :: string
  previousState :: prim
  newState :: bool

type_synonym 'a client_call = "HomeyApiClient \<Rightarrow> (string + 'a) \<times> HomeyApiClient"

definition authenticate :: "HomeyApiClient \<Rightarrow> HomeyApiClient" where
  "authenticate c = c\<lparr>accessToken := Some ''MOCK_TOKEN_REPLACE_IN_PRODUCTION''\<rparr>"

text \<open>\<^verbatim>\<open>if (!this.accessToken) await this.authenticate()\<close>\<close>

definition ensure_token :: "HomeyApiClient \<Rightarrow> HomeyApiClient" where
  "ensure_token c =
     (case accessToken c of
        None \<Rightarrow> authenticate c
      | Some t \<Rightarrow> if t = [] then authenticate c else c)"

definition mock_devices :: "mock_device list" where
  "mock_devices =
     [\<lparr>mock_id = ''device-1'', mock_name = ''Living Room Light'', mock_class = ''light'',
       mock_capabilities = [''onoff'', ''dim''],
       mock_capabilitiesObj = [(''onoff'', PBool True), (''dim'', PNum (Number ''0.75''))],
       mock_zone = ''Living Room''\<rparr>,
      \<lparr>mock_id = ''device-2'', mock_name = ''Bedroom Thermostat'', mock_class = ''thermostat'',
       mock_capabilities = [''target_temperature'', ''measure_temperature''],
       mock_capabilitiesObj = [(''target_temperature'', PNum (Number ''21'')),
                               (''measure_temperature'', PNum (Number ''20.5''))],
       mock_zone = ''Bedroom''\<rparr>,
      \<lparr>mock_id = ''device-3'', mock_name = ''Front Door Lock'', mock_class = ''lock'',
       mock_capabilities = [''locked''],
       mock_capabilitiesObj = [(''locked'', PBool True)],
       mock_zone = ''Hallway''\<rparr>]"

definition listDevices :: "mock_device list client_call" where
  "listDevices c = (Inr mock_devices, ensure_token c)"

definition mock_flows :: "flow list" where
  "mock_flows =
     [\<lparr>flow_id = ''flow-1'', flow_name = ''Good Morning'', enabled = True,
       trigger = ''When time is 07:00'',
       actions = [''Turn on lights'',
                  ''Set thermostat to 21'' @ [CHR 0xC2, CHR 0xB0] @ ''C'']\<rparr>,
      \<lparr>flow_id = ''flow-2'', flow_name = ''Good Night'', enabled = True,
       trigger = ''When time is 23:00'',
       actions = [''Turn off all lights'', ''Lock doors'']\<rparr>,
      \<lparr>flow_id = ''flow-3'', flow_name = ''Away Mode'', enabled = False,
       trigger = ''When last person leaves'',
       actions = [''Turn off all devices'', ''Lock all doors'', ''Set alarm'']\<rparr>]"

definition listFlows :: "flow list client_call" where
  "listFlows c = (Inr mock_flows, ensure_token c)"

text \<open>
  \<open>toggleDevice\<close> looks the device up in the list, refuses one without the \<open>onoff\<close>
  capability, and negates the truthiness of the current value. Reading
  \<^verbatim>\<open>device.capabilitiesObj.onoff.value\<close> where the entry is missing throws a
  \<^verbatim>\<open>TypeError\<close>; its message is the engine's.
\<close>

definition toggleDevice :: "string \<Rightarrow> toggle_result client_call" where
  "toggleDevice dId c =
     (let c1 = ensure_token c;
          (listed, c2) = listDevices c1
      in case listed of
           Inl m \<Rightarrow> (Inl m, c2)
         | Inr devices \<Rightarrow>
             (case find (\<lambda>d. mock_id d = dId) devices of
                None \<Rightarrow> (Inl (''Device not found: '' @ dId), c2)
              | Some device \<Rightarrow>
                  if ''onoff'' \<notin> set (mock_capabilities device)
                  then (Inl (''Device '' @ dId @ '' does not support onoff capability''), c2)
                  else
                    (case map_of (mock_capabilitiesObj device) ''onoff'' of
                       None \<Rightarrow>
                         (Inl ''Cannot read properties of undefined (reading 'value')'', c2)
                     | Some currentState \<Rightarrow>
                         (Inr \<lparr>toggled_deviceId = dId, deviceName = mock_name device,
                               previousState = currentState,
                               newState = (\<not> truthy (prim_js currentState))\<rparr>, c2))))"

definition mock_device_js :: "mock_device \<Rightarrow> jsvalue" where
  "mock_device_js d =
     Object [(''id'', Str (mock_id d)),
             (''name'', Str (mock_name d)),
             (''class'', Str (mock_class d)),
             (''capabilities'', Array (map Str (mock_capabilities d))),
             (''capabilitiesObj'',
                Object (map (\<lambda>(k, v). (k, Object [(''value'', prim_js v)]))
                          (mock_capabilitiesObj d))),
             (''zone'', Str (mock_zone d))]"

definition flow_js :: "flow \<Rightarrow> jsvalue" where
  "flow_js f =
     Object [(''id'', Str (flow_id f)),
             (''name'', Str (flow_name f)),
             (''enabled'', Boolean (enabled f)),
             (''trigger'', Str (trigger f)),
             (''actions'', Array (map Str (actions f)))]"

definition toggle_result_js :: "toggle_result \<Rightarrow> jsvalue" where
  "toggle_result_js r =
     Object [(''deviceId'', Str (toggled_deviceId r)),
             (''deviceName'', Str (deviceName r)),
             (''previousState'', prim_js (previousState r)),
             (''newState'', Boolean (newState r))]"

text \<open>
  The three handlers of the mock variant share one shape: await a call on the client,
  return its result as JSON, or \<^verbatim>\<open>{ error: error.message }\<close> with \<open>isError: true\<close>. They
  are stated for any client call, so that the catch block is a branch of the model; the
  handlers the script registers are the instances at the methods above.
\<close>

definition mock_handler ::
  "('a \<Rightarrow> jsvalue) \<Rightarrow> 'a client_call \<Rightarrow> HomeyApiClient \<Rightarrow> envelope \<times> HomeyApiClient" where
  "mock_handler render call c =
     (case call c of
        (Inr r, c') \<Rightarrow> (success_envelope (render r), c')
      | (Inl message, c') \<Rightarrow> (failure_envelope (Object [(''error'', Str message)]), c'))"

definition list_devices_handler ::
  "mock_device list client_call \<Rightarrow> HomeyApiClient \<Rightarrow> envelope \<times> HomeyApiClient" where
  "list_devices_handler call =
     mock_handler (\<lambda>devices. Object [(''devices'', Array (map mock_device_js devices))]) call"

definition toggle_device_handler ::
  "toggle_result client_call \<Rightarrow> HomeyApiClient \<Rightarrow> envelope \<times> HomeyApiClient" where
  "toggle_device_handler call = mock_handler toggle_result_js call"

definition list_flows_handler ::
  "flow list client_call \<Rightarrow> HomeyApiClient \<Rightarrow> envelope \<times> HomeyApiClient" where
  "list_flows_handler call =
     mock_handler (\<lambda>flows. Object [(''flows'', Array (map flow_js flows))]) call"

definition mock_list_devices :: "HomeyApiClient \<Rightarrow> envelope \<times> HomeyApiClient" where
  "mock_list_devices = list_devices_handler listDevices"

definition mock_toggle_device :: "string \<Rightarrow> HomeyApiClient \<Rightarrow> envelope \<times> HomeyApiClient" where
  "mock_toggle_device dId = toggle_device_handler (toggleDevice dId)"

definition list_flows :: "HomeyApiClient \<Rightarrow> envelope \<times> HomeyApiClient" where
  "list_flows = list_flows_handler listFlows"

section \<open>Vocabulary of the properties\<close>

text \<open>
  The requests the handlers of \<^verbatim>\<open>homey.ts\<close> build, named: the listing, the read of one
  device and the write of one capability, each with the bearer token of the configuration.
\<close>

definition credentials_set :: "config \<Rightarrow> bool" where
  "credentials_set cfg = (HOMEY_CLIENT_ID cfg \<noteq> [] \<and> HOMEY_CLIENT_SECRET cfg \<noteq> [])"

definition devices_request :: "config \<Rightarrow> request" where
  "devices_request cfg =
     request_options cfg (HOMEY_CLIENT_SECRET cfg) ''/api/devices'' ''GET'' Undefined"

definition device_request :: "config \<Rightarrow> string \<Rightarrow> request" where
  "device_request cfg d =
     request_options cfg (HOMEY_CLIENT_SECRET cfg) (''/api/devices/'' @ d) ''GET'' Undefined"

definition capability_request :: "config \<Rightarrow> string \<Rightarrow> string \<Rightarrow> prim \<Rightarrow> request" where
  "capability_request cfg d cap v =
     request_options cfg (HOMEY_CLIENT_SECRET cfg)
       (''/api/devices/'' @ d @ ''/capabilities/'' @ cap) ''PUT''
       (Object [(''value'', prim_js v)])"

text \<open>What the request helper throws on a response that is not \<open>ok\<close>.\<close>

definition non_ok_error :: "'a response \<Rightarrow> thrown" where
  "non_ok_error r =
     (case response_text r of
        Inl e \<Rightarrow> e
      | Inr errorText \<Rightarrow> Error (api_error_message r errorText))"

text \<open>What the request helper returns for the read of device \<open>d\<close>.\<close>

definition read_device :: "config \<Rightarrow> upstream \<Rightarrow> string \<Rightarrow> thrown + HomeyDeviceResponse" where
  "read_device cfg up d =
     fst (homeyApiRequest cfg (fetch_device up) (''/api/devices/'' @ d) ''GET'' Undefined)"

text \<open>\<open>deviceId\<close> is falsy: not supplied, or the empty string.\<close>

definition deviceId_falsy :: "toggle_args \<Rightarrow> bool" where
  "deviceId_falsy args = (deviceId args = None \<or> deviceId args = Some [])"

fun is_boolean :: "prim \<Rightarrow> bool" where
  "is_boolean (PBool b) = True"
| "is_boolean _ = False"

fun prim_json :: "prim \<Rightarrow> json" where
  "prim_json (PBool b) = JBool b"
| "prim_json (PNum n) = (if finite_number n then JNum n else JNull)"
| "prim_json (PStr s) = JStr s"

definition payload_field :: "envelope \<Rightarrow> string \<Rightarrow> json option" where
  "payload_field e k = (case payload_of e of None \<Rightarrow> None | Some j \<Rightarrow> field j k)"

definition payload_keys :: "envelope \<Rightarrow> string list" where
  "payload_keys e = (case payload_of e of None \<Rightarrow> [] | Some j \<Rightarrow> keys j)"

section \<open>Fixtures\<close>

text \<open>
  Concrete configurations, responses and upstreams in the manner of the test suite of
  \<^verbatim>\<open>homey.ts\<close> (a \<^verbatim>\<open>fetch\<close> that resolves to a fixed response), used to run the
  handlers on explicit inputs.
\<close>

definition test_config :: config where
  "test_config =
     \<lparr>HOMEY_CLIENT_ID = ''test-client-id'', HOMEY_CLIENT_SECRET = ''test-client-secret'',
      HOMEY_API_URL = ''https://test-api.homey.com''\<rparr>"

definition empty_config :: config where
  "empty_config =
     \<lparr>HOMEY_CLIENT_ID = [], HOMEY_CLIENT_SECRET = [],
      HOMEY_API_URL = ''https://api.athom.com''\<rparr>"

definition ok_response :: "'a \<Rightarrow> 'a response" where
  "ok_response x =
     \<lparr>ok = True, status = 200, statusText = ''OK'', response_text = Inr [],
      response_json = Inr x\<rparr>"

definition error_response :: "nat \<Rightarrow> string \<Rightarrow> string \<Rightarrow> 'a response" where
  "error_response st stText txt =
     \<lparr>ok = False, status = st, statusText = stText, response_text = Inr txt,
      response_json = Inl (Error ''Unexpected token'')\<rparr>"

text \<open>An error status whose body cannot be read: \<^verbatim>\<open>response.text()\<close> rejects with \<open>e\<close>.\<close>

definition unreadable_response :: "nat \<Rightarrow> string \<Rightarrow> thrown \<Rightarrow> 'a response" where
  "unreadable_response st stText e =
     \<lparr>ok = False, status = st, statusText = stText, response_text = Inl e,
      response_json = Inl e\<rparr>"

definition resolving :: "'a response \<Rightarrow> 'a fetch" where
  "resolving r = (\<lambda>req. Inr r)"

definition test_device :: "(string \<times> capability_state) list option \<Rightarrow> HomeyDevice" where
  "test_device caps =
     \<lparr>device_id = ''device-1'', device_name = ''Living Room Light'',
      zone = Some \<lparr>zone_name = ''Living Room''\<rparr>, device_class = Some ''light'',
      capabilities = Some [''onoff'', ''dim''], capabilitiesObj = caps\<rparr>"

definition test_capabilities :: "prim \<Rightarrow> (string \<times> capability_state) list" where
  "test_capabilities v =
     [(''onoff'', \<lparr>cap_value = v, cap_type = None\<rparr>),
      (''dim'', \<lparr>cap_value = PNum (Number ''0.5''), cap_type = Some ''number''\<rparr>)]"

text \<open>An upstream whose device has the given capabilities and whose write succeeds.\<close>

definition test_upstream :: "(string \<times> capability_state) list option \<Rightarrow> upstream" where
  "test_upstream caps =
     \<lparr>fetch_device = resolving (ok_response \<lparr>device_result = test_device caps\<rparr>),
      fetch_capability = resolving (ok_response (JObj []))\<rparr>"

text \<open>An upstream that answers every request with the same error status.\<close>

definition failing_upstream :: "nat \<Rightarrow> string \<Rightarrow> string \<Rightarrow> upstream" where
  "failing_upstream st stText txt =
     \<lparr>fetch_device = resolving (error_response st stText txt),
      fetch_capability = resolving (error_response st stText txt)\<rparr>"

text \<open>An upstream whose read succeeds and whose write is answered with an error status.\<close>

definition write_failing_upstream ::
  "(string \<times> capability_state) list option \<Rightarrow> nat \<Rightarrow> string \<Rightarrow> string \<Rightarrow> upstream" where
  "write_failing_upstream caps st stText txt =
     \<lparr>fetch_device = resolving (ok_response \<lparr>device_result = test_device caps\<rparr>),
      fetch_capability = resolving (error_response st stText txt)\<rparr>"

definition toggle_call :: "string option \<Rightarrow> string option \<Rightarrow> prim option \<Rightarrow> toggle_args" where
  "toggle_call d cap v = \<lparr>deviceId = d, capability = cap, value = v\<rparr>"

section \<open>The request helper\<close>

lemma getHomeyToken_set [simp]:
  "credentials_set cfg \<Longrightarrow> getHomeyToken cfg = Inr (HOMEY_CLIENT_SECRET cfg)"
  by (simp add: getHomeyToken_def credentials_set_def)

lemma getHomeyToken_unset:
  "\<not> credentials_set cfg \<Longrightarrow> \<exists>m. getHomeyToken cfg = Inl (Error m)"
  by (auto simp add: getHomeyToken_def credentials_set_def)

lemma homeyApiRequest_unset:
  "\<not> credentials_set cfg \<Longrightarrow> snd (homeyApiRequest cfg f endpoint meth bdy) = []"
  by (auto simp add: homeyApiRequest_def getHomeyToken_def credentials_set_def)

lemma homeyApiRequest_log:
  "snd (homeyApiRequest cfg f endpoint meth bdy) =
     (if credentials_set cfg
      then [request_options cfg (HOMEY_CLIENT_SECRET cfg) endpoint meth bdy] else [])"
  by (auto simp add: homeyApiRequest_def getHomeyToken_def credentials_set_def Let_def
      split: sum.splits)

lemma homeyApiRequest_Inr_credentials:
  "fst (homeyApiRequest cfg f endpoint meth bdy) = Inr x \<Longrightarrow> credentials_set cfg"
  by (auto simp add: homeyApiRequest_def getHomeyToken_def credentials_set_def
      split: if_splits)

lemma homeyApiRequest_not_ok:
  assumes "credentials_set cfg"
    and "f (request_options cfg (HOMEY_CLIENT_SECRET cfg) endpoint meth bdy) = Inr r"
    and "\<not> ok r"
  shows "homeyApiRequest cfg f endpoint meth bdy =
           (case response_text r of
              Inl e \<Rightarrow> Inl e
            | Inr errorText \<Rightarrow> Inl (Error (api_error_message r errorText)),
            [request_options cfg (HOMEY_CLIENT_SECRET cfg) endpoint meth bdy])"
  using assms by (simp add: homeyApiRequest_def Let_def split: sum.splits)

lemma request_options_method [simp]:
  "http_method (request_options cfg token endpoint meth bdy) = meth"
  by (simp add: request_options_def)

lemma request_options_url [simp]:
  "url (request_options cfg token endpoint meth bdy) = HOMEY_API_URL cfg @ endpoint"
  by (simp add: request_options_def)

lemma capability_request_body [simp]:
  "body (capability_request cfg d cap v) = Some (JObj [(''value'', prim_json v)])"
  by (cases v) (simp_all add: capability_request_def request_options_def)

lemma device_request_body [simp]: "body (device_request cfg d) = None"
  by (simp add: device_request_def request_options_def)

lemma device_request_method [simp]: "http_method (device_request cfg d) = ''GET''"
  by (simp add: device_request_def)

lemma capability_request_method [simp]: "http_method (capability_request cfg d cap v) = ''PUT''"
  by (simp add: capability_request_def)

lemma device_request_url [simp]:
  "url (device_request cfg d) = HOMEY_API_URL cfg @ ''/api/devices/'' @ d"
  by (simp add: device_request_def)

lemma capability_request_url [simp]:
  "url (capability_request cfg d cap v) =
     HOMEY_API_URL cfg @ ''/api/devices/'' @ d @ ''/capabilities/'' @ cap"
  by (simp add: capability_request_def)

section \<open>The envelope and the branches of \<open>toggle_device\<close>\<close>

lemma set_capability_log:
  "snd (set_capability cfg up d cap v) =
     (if credentials_set cfg then [capability_request cfg d cap v] else [])"
  by (simp add: set_capability_def capability_request_def homeyApiRequest_log)

lemma read_device_log:
  "snd (homeyApiRequest cfg (fetch_device up) (''/api/devices/'' @ d) ''GET'' Undefined) =
     (if credentials_set cfg then [device_request cfg d] else [])"
  by (simp add: device_request_def homeyApiRequest_log)

lemma read_device_Inr_credentials: "read_device cfg up d = Inr x \<Longrightarrow> credentials_set cfg"
  unfolding read_device_def by (rule homeyApiRequest_Inr_credentials)

lemma toggle_device_try_falsy:
  "deviceId_falsy args \<Longrightarrow>
     toggle_device_try cfg up args = (Inl (Error ''deviceId is required''), [])"
  by (auto simp add: toggle_device_try_def deviceId_falsy_def Let_def)

lemma toggle_device_try_explicit:
  assumes "deviceId args = Some d" and "d \<noteq> []" and "value args = Some v"
  shows "toggle_device_try cfg up args =
           (case set_capability cfg up d (capability_of args) v of
              (Inl e, log) \<Rightarrow> (Inl e, log)
            | (Inr x, log) \<Rightarrow> (Inr v, log))"
  using assms by (simp add: toggle_device_try_def Let_def split: prod.splits sum.splits)

lemma toggle_device_try_read_failed:
  assumes "deviceId args = Some d" and "d \<noteq> []" and "value args = None"
    and "read_device cfg up d = Inl e"
  shows "toggle_device_try cfg up args =
           (Inl e, if credentials_set cfg then [device_request cfg d] else [])"
proof -
  obtain log where
    "homeyApiRequest cfg (fetch_device up) (''/api/devices/'' @ d) ''GET'' Undefined = (Inl e, log)"
    using assms(4) unfolding read_device_def by (metis prod.collapse)
  moreover from this have "log = (if credentials_set cfg then [device_request cfg d] else [])"
    using read_device_log [of cfg up d] by simp
  ultimately show ?thesis
    using assms(1-3) by (simp add: toggle_device_try_def Let_def)
qed

lemma toggle_device_try_not_boolean:
  assumes "deviceId args = Some d" and "d \<noteq> []" and "value args = None"
    and "read_device cfg up d = Inr deviceData"
    and "\<forall>b. currentValue deviceData (capability_of args) \<noteq> Some (PBool b)"
  shows "toggle_device_try cfg up args =
           (Inl (Error (not_boolean_message (capability_of args))), [device_request cfg d])"
proof -
  have cred: "credentials_set cfg"
    using assms(4) by (rule read_device_Inr_credentials)
  obtain log where
    rd: "homeyApiRequest cfg (fetch_device up) (''/api/devices/'' @ d) ''GET'' Undefined
          = (Inr deviceData, log)"
    using assms(4) unfolding read_device_def by (metis prod.collapse)
  then have "log = [device_request cfg d]"
    using read_device_log [of cfg up d] cred by simp
  with rd assms(1-3,5) show ?thesis
    by (simp add: toggle_device_try_def Let_def split: option.splits prim.splits)
qed

lemma toggle_device_try_boolean:
  assumes "deviceId args = Some d" and "d \<noteq> []" and "value args = None"
    and "read_device cfg up d = Inr deviceData"
    and "currentValue deviceData (capability_of args) = Some (PBool b)"
  shows "toggle_device_try cfg up args =
           (case fst (set_capability cfg up d (capability_of args) (PBool (\<not> b))) of
              Inl e \<Rightarrow> Inl e | Inr x \<Rightarrow> Inr (PBool (\<not> b)),
            [device_request cfg d, capability_request cfg d (capability_of args) (PBool (\<not> b))])"
proof -
  have cred: "credentials_set cfg"
    using assms(4) by (rule read_device_Inr_credentials)
  obtain log where
    rd: "homeyApiRequest cfg (fetch_device up) (''/api/devices/'' @ d) ''GET'' Undefined
          = (Inr deviceData, log)"
    using assms(4) unfolding read_device_def by (metis prod.collapse)
  then have log: "log = [device_request cfg d]"
    using read_device_log [of cfg up d] cred by simp
  obtain w wlog where
    wr: "set_capability cfg up d (capability_of args) (PBool (\<not> b)) = (w, wlog)"
    by (cases "set_capability cfg up d (capability_of args) (PBool (\<not> b))")
  then have "wlog = [capability_request cfg d (capability_of args) (PBool (\<not> b))]"
    using set_capability_log [of cfg up d "capability_of args" "PBool (\<not> b)"] cred by simp
  with rd log wr assms(1-3,5) show ?thesis
    by (simp add: toggle_device_try_def Let_def split: sum.splits)
qed

lemma failure_envelope_isError [simp]: "isError (failure_envelope p) = Some True"
  by (simp add: failure_envelope_def)

lemma success_envelope_isError [simp]: "isError (success_envelope p) = None"
  by (simp add: success_envelope_def)

lemma payload_of_failure [simp]: "payload_of (failure_envelope p) = JSON_stringify p"
  by (simp add: failure_envelope_def payload_of_def)

lemma payload_of_success [simp]: "payload_of (success_envelope p) = JSON_stringify p"
  by (simp add: success_envelope_def payload_of_def)

lemma toggle_device_failure:
  assumes "toggle_device_try cfg up args = (Inl e, log)"
  shows "toggle_device cfg up args =
           (failure_envelope
              (Object [(''error'', Str ''Failed to toggle Homey device''),
                       (''details'', Str (errorMessage e)),
                       (''deviceId'', deviceId_js args)]), log)"
  using assms by (simp add: toggle_device_def)

lemma toggle_failure_details:
  "payload_field (failure_envelope
              (Object [(''error'', Str s),
                       (''details'', Str m),
                       (''deviceId'', deviceId_js args)])) ''details'' = Some (JStr m)"
  by (simp add: payload_field_def deviceId_js_def split: option.splits)

section \<open>Validation of \<open>deviceId\<close>\<close>

text \<open>
  C4. A call of \<open>toggle_device\<close> whose \<open>deviceId\<close> is absent or the empty string returns
  an envelope with \<open>isError: true\<close> whose \<open>details\<close> is the text "deviceId is required",
  and hands no request to \<^verbatim>\<open>fetch\<close>: the check comes before any network call. This
  holds for every configuration, upstream, capability and value.
\<close>

theorem toggle_device_requires_deviceId:
  assumes "deviceId_falsy args"
  shows "isError (fst (toggle_device cfg up args)) = Some True
       \<and> payload_field (fst (toggle_device cfg up args)) ''details''
            = Some (JStr ''deviceId is required'')
       \<and> snd (toggle_device cfg up args) = []"
  using toggle_device_failure [OF toggle_device_try_falsy [OF assms], of cfg up]
  by (simp add: toggle_failure_details)

theorem toggle_device_requires_deviceId_witness:
  "deviceId_falsy (toggle_call None None (Some (PBool True)))
   \<and> isError (fst (toggle_device test_config (test_upstream None)
         (toggle_call None None (Some (PBool True))))) = Some True
   \<and> payload_field (fst (toggle_device test_config (test_upstream None)
         (toggle_call None None (Some (PBool True))))) ''details''
        = Some (JStr ''deviceId is required'')
   \<and> snd (toggle_device test_config (test_upstream None)
         (toggle_call None None (Some (PBool True)))) = []"
  using toggle_device_requires_deviceId
    [of "toggle_call None None (Some (PBool True))" test_config "test_upstream None"]
  by (simp add: deviceId_falsy_def toggle_call_def)

section \<open>What \<open>toggle_device\<close> returns and requests\<close>


lemma JSON_stringify_prim [simp]: "JSON_stringify (prim_js v) = Some (prim_json v)"
  by (cases v) simp_all


lemma toggle_failure_keys:
  "payload_keys (failure_envelope
              (Object [(''error'', Str s),
                       (''details'', Str m),
                       (''deviceId'', deviceId_js args)])) =
     (if deviceId args = None then [''error'', ''details'']
      else [''error'', ''details'', ''deviceId''])"
  by (simp add: payload_keys_def deviceId_js_def split: option.splits)

lemma toggle_failure_deviceId:
  "payload_field (failure_envelope
              (Object [(''error'', Str s),
                       (''details'', Str m),
                       (''deviceId'', deviceId_js args)])) ''deviceId'' =
     map_option JStr (deviceId args)"
  by (simp add: payload_field_def deviceId_js_def split: option.splits)

lemma toggle_device_isError_iff:
  "isError (fst (toggle_device cfg up args)) =
     (case fst (toggle_device_try cfg up args) of Inl e \<Rightarrow> Some True | Inr v \<Rightarrow> None)"
  by (simp add: toggle_device_def split: prod.splits sum.splits)

lemma toggle_device_log:
  "snd (toggle_device cfg up args) = snd (toggle_device_try cfg up args)"
  by (simp add: toggle_device_def split: prod.splits sum.splits)

lemma toggle_device_explicit_log:
  assumes "value args = Some v"
  shows "snd (toggle_device cfg up args) =
           (case deviceId args of
              None \<Rightarrow> []
            | Some d \<Rightarrow>
                if d = [] \<or> \<not> credentials_set cfg then []
                else [capability_request cfg d (capability_of args) v])"
proof (cases "deviceId_falsy args")
  case True
  then show ?thesis
    by (auto simp add: toggle_device_log toggle_device_try_falsy deviceId_falsy_def)
next
  case False
  then obtain d where d: "deviceId args = Some d" "d \<noteq> []"
    by (auto simp add: deviceId_falsy_def)
  have "snd (toggle_device_try cfg up args) = snd (set_capability cfg up d (capability_of args) v)"
    unfolding toggle_device_try_explicit [OF d assms]
    by (simp split: prod.splits sum.splits)
  with d show ?thesis
    by (simp add: toggle_device_log set_capability_log)
qed

lemma toggle_device_implicit_log:
  assumes "deviceId args = Some d" and "d \<noteq> []" and "value args = None"
    and "credentials_set cfg"
  shows "snd (toggle_device cfg up args) = [device_request cfg d]
       \<or> (\<exists>b. snd (toggle_device cfg up args) =
                 [device_request cfg d,
                  capability_request cfg d (capability_of args) (PBool b)])"
proof (cases "read_device cfg up d")
  case (Inl e)
  from toggle_device_try_read_failed [OF assms(1-3) this] assms(4)
  show ?thesis by (simp add: toggle_device_log)
next
  case (Inr deviceData)
  show ?thesis
  proof (cases "\<exists>b. currentValue deviceData (capability_of args) = Some (PBool b)")
    case True
    then obtain b where "currentValue deviceData (capability_of args) = Some (PBool b)" ..
    from toggle_device_try_boolean [OF assms(1-3) Inr this]
    show ?thesis by (auto simp add: toggle_device_log)
  next
    case False
    then have "\<forall>b. currentValue deviceData (capability_of args) \<noteq> Some (PBool b)" by simp
    from toggle_device_try_not_boolean [OF assms(1-3) Inr this]
    show ?thesis by (simp add: toggle_device_log)
  qed
qed




section \<open>Order of the read and the write\<close>

text \<open>
  C1, as the code has it. With an explicit \<open>value\<close>, \<open>toggle_device\<close> issues no \<open>GET\<close>: it
  issues nothing, or the one \<open>PUT\<close> of that value. Without a \<open>value\<close>, with a non-empty
  \<open>deviceId\<close> and with both credentials configured, the first request is the one \<open>GET\<close> of
  \<^verbatim>\<open>/api/devices/{deviceId}\<close>; it is followed by nothing (the read failed or the value
  was not boolean) or by exactly one \<open>PUT\<close>. The two halves are stated for two calls, so
  that both can be run on explicit inputs.
\<close>

theorem toggle_device_request_order:
  "(value args = Some v \<longrightarrow>
      (\<forall>r \<in> set (snd (toggle_device cfg up args)). http_method r \<noteq> ''GET'')
      \<and> (snd (toggle_device cfg up args) = []
         \<or> (\<exists>d. deviceId args = Some d
              \<and> snd (toggle_device cfg up args)
                  = [capability_request cfg d (capability_of args) v])))
   \<and> (value args' = None \<and> deviceId args' = Some d' \<and> d' \<noteq> [] \<and> credentials_set cfg' \<longrightarrow>
      http_method (device_request cfg' d') = ''GET''
      \<and> url (device_request cfg' d') = HOMEY_API_URL cfg' @ ''/api/devices/'' @ d'
      \<and> (snd (toggle_device cfg' up' args') = [device_request cfg' d']
         \<or> (\<exists>b. snd (toggle_device cfg' up' args')
                  = [device_request cfg' d',
                     capability_request cfg' d' (capability_of args') (PBool b)]
                \<and> http_method (capability_request cfg' d' (capability_of args') (PBool b))
                    = ''PUT'')))"
proof (intro conjI impI)
  assume v: "value args = Some v"
  show "\<forall>r \<in> set (snd (toggle_device cfg up args)). http_method r \<noteq> ''GET''"
    unfolding toggle_device_explicit_log [OF v] by (auto split: option.splits)
  show "snd (toggle_device cfg up args) = []
         \<or> (\<exists>d. deviceId args = Some d
              \<and> snd (toggle_device cfg up args)
                  = [capability_request cfg d (capability_of args) v])"
    unfolding toggle_device_explicit_log [OF v] by (simp split: option.splits)
next
  assume "value args' = None \<and> deviceId args' = Some d' \<and> d' \<noteq> [] \<and> credentials_set cfg'"
  then have h: "deviceId args' = Some d'" "d' \<noteq> []" "value args' = None" "credentials_set cfg'"
    by simp_all
  show "http_method (device_request cfg' d') = ''GET''" by simp
  show "url (device_request cfg' d') = HOMEY_API_URL cfg' @ ''/api/devices/'' @ d'" by simp
  show "snd (toggle_device cfg' up' args') = [device_request cfg' d']
         \<or> (\<exists>b. snd (toggle_device cfg' up' args')
                  = [device_request cfg' d',
                     capability_request cfg' d' (capability_of args') (PBool b)]
                \<and> http_method (capability_request cfg' d' (capability_of args') (PBool b))
                    = ''PUT'')"
    using toggle_device_implicit_log [OF h, of up'] by auto
qed

theorem toggle_device_request_order_witness:
  "value (toggle_call (Some ''device-1'') (Some ''onoff'') (Some (PBool True))) = Some (PBool True)
   \<and> snd (toggle_device test_config (test_upstream (Some (test_capabilities (PBool False))))
          (toggle_call (Some ''device-1'') (Some ''onoff'') (Some (PBool True))))
     = [capability_request test_config ''device-1'' ''onoff'' (PBool True)]
   \<and> value (toggle_call (Some ''device-1'') (Some ''onoff'') None) = None
   \<and> credentials_set test_config
   \<and> snd (toggle_device test_config (test_upstream (Some (test_capabilities (PBool False))))
          (toggle_call (Some ''device-1'') (Some ''onoff'') None))
     = [device_request test_config ''device-1'',
        capability_request test_config ''device-1'' ''onoff'' (PBool True)]
   \<and> http_method (device_request test_config ''device-1'') = ''GET''"
proof -
  have c: "credentials_set test_config"
    by (simp add: credentials_set_def test_config_def)
  have t1: "snd (toggle_device test_config (test_upstream (Some (test_capabilities (PBool False))))
          (toggle_call (Some ''device-1'') (Some ''onoff'') (Some (PBool True))))
     = [capability_request test_config ''device-1'' ''onoff'' (PBool True)]"
    by (simp add: toggle_device_def toggle_device_try_def toggle_call_def capability_of_def
        homeyApiRequest_def set_capability_def c test_upstream_def resolving_def ok_response_def
        capability_request_def)
  have t2: "snd (toggle_device test_config (test_upstream (Some (test_capabilities (PBool False))))
          (toggle_call (Some ''device-1'') (Some ''onoff'') None))
     = [device_request test_config ''device-1'',
        capability_request test_config ''device-1'' ''onoff'' (PBool True)]"
    by (simp add: toggle_device_def toggle_device_try_def toggle_call_def capability_of_def
        homeyApiRequest_def set_capability_def c test_upstream_def resolving_def ok_response_def
        currentValue_def test_device_def test_capabilities_def device_request_def
        capability_request_def)
  show ?thesis
    using c t1 t2 toggle_device_request_order
      [of "toggle_call (Some ''device-1'') (Some ''onoff'') (Some (PBool True))" "PBool True"
        test_config "test_upstream (Some (test_capabilities (PBool False)))"
        "toggle_call (Some ''device-1'') (Some ''onoff'') None" "''device-1''" test_config
        "test_upstream (Some (test_capabilities (PBool False)))"]
    by (simp add: toggle_call_def)
qed

text \<open>
  The claim as stated promises the read for every call without a \<open>value\<close> and with a
  \<open>deviceId\<close>. Where a credential is empty, \<open>getHomeyToken\<close> throws before \<^verbatim>\<open>fetch\<close> is
  reached, and such a call issues no request at all. And where the value read is not
  boolean, the read is the only request: no \<open>PUT\<close> follows it.
\<close>

theorem toggle_device_missing_credentials_counterexample:
  "value (toggle_call (Some ''device-1'') (Some ''onoff'') None) = None
   \<and> deviceId (toggle_call (Some ''device-1'') (Some ''onoff'') None) = Some ''device-1''
   \<and> snd (toggle_device empty_config (test_upstream (Some (test_capabilities (PBool False))))
          (toggle_call (Some ''device-1'') (Some ''onoff'') None)) = []
   \<and> snd (toggle_device test_config
          (test_upstream (Some (test_capabilities (PNum (Number ''21'')))))
          (toggle_call (Some ''device-1'') (Some ''onoff'') None))
       = [device_request test_config ''device-1'']"
  by (simp add: toggle_call_def toggle_device_log toggle_device_try_def homeyApiRequest_def
      getHomeyToken_def empty_config_def test_config_def test_upstream_def resolving_def
      ok_response_def capability_of_def currentValue_def test_device_def test_capabilities_def
      device_request_def)

section \<open>Toggling negates a boolean value\<close>



section \<open>Values that cannot be toggled\<close>

text \<open>
  C3. A call without a \<open>value\<close> whose read returns a value for the target capability that is
  not boolean (a number or a string) returns an \<open>isError\<close> envelope whose \<open>details\<close> is
  \<^verbatim>\<open>Cannot toggle capability "<capability>" - current value is not boolean\<close>, and the only
  request issued is the read: there is no \<open>PUT\<close>.
\<close>

theorem toggle_device_not_boolean:
  assumes "deviceId args = Some d" and "d \<noteq> []" and "value args = None"
    and "read_device cfg up d = Inr deviceData"
    and "currentValue deviceData (capability_of args) = Some v"
    and "\<not> is_boolean v"
  shows "isError (fst (toggle_device cfg up args)) = Some True
       \<and> payload_field (fst (toggle_device cfg up args)) ''details''
           = Some (JStr (''Cannot toggle capability \"'' @ capability_of args
                          @ ''\" - current value is not boolean''))
       \<and> snd (toggle_device cfg up args) = [device_request cfg d]
       \<and> (\<forall>r \<in> set (snd (toggle_device cfg up args)). http_method r \<noteq> ''PUT'')"
proof -
  have "\<forall>b. currentValue deviceData (capability_of args) \<noteq> Some (PBool b)"
    using assms(5,6) by auto
  from toggle_device_failure [OF toggle_device_try_not_boolean [OF assms(1-4) this]]
  show ?thesis
    by (simp add: toggle_failure_details not_boolean_message_def)
qed

theorem toggle_device_not_boolean_witness:
  "(let args = toggle_call (Some ''device-1'') (Some ''dim'') None;
        up = test_upstream (Some (test_capabilities (PBool True)))
    in read_device test_config up ''device-1''
         = Inr \<lparr>device_result = test_device (Some (test_capabilities (PBool True)))\<rparr>
     \<and> isError (fst (toggle_device test_config up args)) = Some True
     \<and> payload_field (fst (toggle_device test_config up args)) ''details''
         = Some (JStr ''Cannot toggle capability \"dim\" - current value is not boolean'')
     \<and> snd (toggle_device test_config up args) = [device_request test_config ''device-1''])"
proof -
  have rd: "read_device test_config (test_upstream (Some (test_capabilities (PBool True)))) ''device-1''
         = Inr \<lparr>device_result = test_device (Some (test_capabilities (PBool True)))\<rparr>"
    by (simp add: read_device_def homeyApiRequest_def getHomeyToken_def test_config_def
        test_upstream_def resolving_def ok_response_def)
  show ?thesis
    using rd toggle_device_not_boolean [of "toggle_call (Some ''device-1'') (Some ''dim'') None"
        "''device-1''" test_config "test_upstream (Some (test_capabilities (PBool True)))"
        "\<lparr>device_result = test_device (Some (test_capabilities (PBool True)))\<rparr>"
        "PNum (Number ''0.5'')"]
    by (simp add: toggle_call_def capability_of_def currentValue_def test_device_def
        test_capabilities_def)
qed

text \<open>
  C9. Where the device has no \<open>capabilitiesObj\<close>, or the target capability is not a key of
  it, the current value is \<open>undefined\<close> and the call fails with the same "not boolean"
  message as for a number or a string; no \<open>PUT\<close> is issued.
\<close>

theorem toggle_device_capability_absent:
  assumes "deviceId args = Some d" and "d \<noteq> []" and "value args = None"
    and "read_device cfg up d = Inr deviceData"
    and "capabilitiesObj (device_result deviceData) = None
       \<or> (\<exists>m. capabilitiesObj (device_result deviceData) = Some m
              \<and> capability_of args \<notin> fst ` set m)"
  shows "isError (fst (toggle_device cfg up args)) = Some True
       \<and> payload_field (fst (toggle_device cfg up args)) ''details''
           = Some (JStr (''Cannot toggle capability \"'' @ capability_of args
                          @ ''\" - current value is not boolean''))
       \<and> snd (toggle_device cfg up args) = [device_request cfg d]
       \<and> (\<forall>r \<in> set (snd (toggle_device cfg up args)). http_method r \<noteq> ''PUT'')"
proof -
  have "currentValue deviceData (capability_of args) = None"
    using assms(5) by (auto simp add: currentValue_def map_of_eq_None_iff)
  then have "\<forall>b. currentValue deviceData (capability_of args) \<noteq> Some (PBool b)"
    by simp
  from toggle_device_failure [OF toggle_device_try_not_boolean [OF assms(1-4) this]]
  show ?thesis
    by (simp add: toggle_failure_details not_boolean_message_def)
qed

theorem toggle_device_capability_absent_witness:
  "(let args = toggle_call (Some ''device-1'') None None;
        up = test_upstream None
    in read_device test_config up ''device-1'' = Inr \<lparr>device_result = test_device None\<rparr>
     \<and> isError (fst (toggle_device test_config up args)) = Some True
     \<and> payload_field (fst (toggle_device test_config up args)) ''details''
         = Some (JStr ''Cannot toggle capability \"onoff\" - current value is not boolean'')
     \<and> snd (toggle_device test_config up args) = [device_request test_config ''device-1''])"
proof -
  have rd: "read_device test_config (test_upstream None) ''device-1''
         = Inr \<lparr>device_result = test_device None\<rparr>"
    by (simp add: read_device_def homeyApiRequest_def getHomeyToken_def test_config_def
        test_upstream_def resolving_def ok_response_def)
  show ?thesis
    using rd toggle_device_capability_absent [of "toggle_call (Some ''device-1'') None None"
        "''device-1''" test_config "test_upstream None" "\<lparr>device_result = test_device None\<rparr>"]
    by (simp add: toggle_call_def capability_of_def test_device_def)
qed

section \<open>The \<open>deviceId\<close> field of the failure payload\<close>

text \<open>
  C10. In a failing call of \<open>toggle_device\<close> the failure object is built with
  \<^verbatim>\<open>deviceId\<close> as the caller gave it; \<^verbatim>\<open>JSON.stringify\<close> drops the property when it is
  \<open>undefined\<close>. So without a \<open>deviceId\<close> the payload has the keys \<open>error\<close> and \<open>details\<close>
  only, and the key \<open>deviceId\<close> is present exactly when the caller supplied one.
\<close>

theorem toggle_device_failure_deviceId_key:
  assumes "isError (fst (toggle_device cfg up args)) = Some True"
  shows "(deviceId args = None \<longrightarrow>
            payload_keys (fst (toggle_device cfg up args)) = [''error'', ''details''])
       \<and> (''deviceId'' \<in> set (payload_keys (fst (toggle_device cfg up args)))
             \<longleftrightarrow> deviceId args \<noteq> None)
       \<and> payload_field (fst (toggle_device cfg up args)) ''deviceId''
             = map_option JStr (deviceId args)"
proof -
  obtain e log where "toggle_device_try cfg up args = (Inl e, log)"
    using assms unfolding toggle_device_isError_iff
    by (cases "toggle_device_try cfg up args") (auto split: sum.splits)
  from toggle_device_failure [OF this] show ?thesis
    by (simp add: toggle_failure_keys toggle_failure_deviceId)
qed

theorem toggle_device_failure_deviceId_key_witness:
  "isError (fst (toggle_device test_config (test_upstream None) (toggle_call None None None)))
     = Some True
   \<and> payload_keys (fst (toggle_device test_config (test_upstream None)
        (toggle_call None None None))) = [''error'', ''details'']
   \<and> payload_field (fst (toggle_device test_config (test_upstream None)
        (toggle_call None None None))) ''deviceId'' = None"
proof -
  have "isError (fst (toggle_device test_config (test_upstream None) (toggle_call None None None)))
     = Some True"
    by (simp add: toggle_device_def toggle_device_try_def toggle_call_def)
  from this toggle_device_failure_deviceId_key [OF this] show ?thesis
    by (simp add: toggle_call_def)
qed

section \<open>The \<open>list_devices\<close> payload\<close>

lemma show_nat_digits: "set (show_nat n) \<subseteq> set ''0123456789''"
proof (induction n rule: show_nat.induct)
  case (1 n)
  have d: "digit k \<in> set ''0123456789''" if "k < 10" for k
    unfolding digit_def using that by (intro nth_mem) simp
  show ?case
  proof (cases "n < 10")
    case True
    then show ?thesis
      using d [of n] by (subst show_nat.simps) simp
  next
    case False
    then show ?thesis
      using "1.IH" d [of "n mod 10"] by (subst show_nat.simps) simp
  qed
qed

lemma finite_number_of_nat [simp]: "finite_number (number_of_nat n)"
proof -
  have "CHR ''I'' \<notin> set (show_nat n)" "CHR ''-'' \<notin> set (show_nat n)"
    "CHR ''N'' \<notin> set (show_nat n)"
    using show_nat_digits [of n] by auto
  then have "show_nat n \<noteq> ''Infinity''" "show_nat n \<noteq> ''-Infinity''" "show_nat n \<noteq> ''NaN''"
    by auto
  then show ?thesis
    by (simp add: finite_number_def number_of_nat_def)
qed

lemma length_stringify_elements [simp]: "length (stringify_elements xs) = length xs"
  by (induction xs) simp_all

lemma list_devices_isError_iff:
  "isError (fst (list_devices cfg fetch)) =
     (case fst (list_devices_try cfg fetch) of Inl e \<Rightarrow> Some True | Inr ds \<Rightarrow> None)"
  by (cases "list_devices_try cfg fetch") (auto simp add: list_devices_def split: sum.splits)

lemma list_devices_try_Inr:
  "fst (homeyApiRequest cfg fetch ''/api/devices'' ''GET'' Undefined) = Inr data \<Longrightarrow>
     fst (list_devices_try cfg fetch) = Inr (map normalize_device (result data))"
  by (cases "homeyApiRequest cfg fetch ''/api/devices'' ''GET'' Undefined")
    (auto simp add: list_devices_try_def split: sum.splits)

lemma list_devices_try_Inl:
  "fst (homeyApiRequest cfg fetch ''/api/devices'' ''GET'' Undefined) = Inl e \<Longrightarrow>
     fst (list_devices_try cfg fetch) = Inl e"
  by (cases "homeyApiRequest cfg fetch ''/api/devices'' ''GET'' Undefined")
    (auto simp add: list_devices_try_def split: sum.splits)

lemma list_devices_payload:
  "fst (list_devices_try cfg fetch) = Inr devices \<Longrightarrow>
     payload_of (fst (list_devices cfg fetch)) =
       Some (JObj [(''devices'', JArr (stringify_elements devices)),
                   (''count'', JNum (number_of_nat (length devices)))])"
  by (cases "list_devices_try cfg fetch") (auto simp add: list_devices_def split: sum.splits)

lemma list_devices_failure_payload:
  "fst (list_devices_try cfg fetch) = Inl e \<Longrightarrow>
     payload_of (fst (list_devices cfg fetch)) =
       Some (JObj [(''error'', JStr ''Failed to list Homey devices''),
                   (''details'', JStr (errorMessage e))])"
  by (cases "list_devices_try cfg fetch") (auto simp add: list_devices_def split: sum.splits)

lemma list_devices_try_fails_iff:
  "(\<exists>e. fst (list_devices_try cfg fetch) = Inl e) \<longleftrightarrow>
     \<not> credentials_set cfg
     \<or> (\<exists>e. fetch (devices_request cfg) = Inl e)
     \<or> (\<exists>r. fetch (devices_request cfg) = Inr r \<and> (\<not> ok r \<or> (\<exists>e. response_json r = Inl e)))"
  by (cases "fetch (devices_request cfg)")
    (auto simp add: list_devices_try_def homeyApiRequest_def getHomeyToken_def
      credentials_set_def devices_request_def Let_def split: sum.splits if_splits)

text \<open>
  The decimal text of a natural number determines it, so the \<open>count\<close> field below stands
  for exactly one length.
\<close>

lemma digit_inj: "a < 10 \<Longrightarrow> b < 10 \<Longrightarrow> digit a = digit b \<Longrightarrow> a = b"
proof -
  assume "a < 10" "b < 10" "digit a = digit b"
  moreover have "distinct ''0123456789''" by simp
  moreover have "length ''0123456789'' = 10" by simp
  ultimately show "a = b"
    unfolding digit_def by (metis nth_eq_iff_index_eq)
qed

lemma show_nat_not_Nil: "show_nat n \<noteq> []"
  by (subst show_nat.simps) simp

lemma show_nat_last: "last (show_nat n) = digit (n mod 10)"
  by (subst show_nat.simps) simp

lemma show_nat_butlast:
  "butlast (show_nat n) = (if n < 10 then [] else show_nat (n div 10))"
  by (subst show_nat.simps) simp

lemma show_nat_inj: "show_nat m = show_nat n \<Longrightarrow> m = n"
proof (induction m arbitrary: n rule: show_nat.induct)
  case (1 m)
  from "1.prems" have l: "digit (m mod 10) = digit (n mod 10)"
    by (metis show_nat_last)
  then have r: "m mod 10 = n mod 10"
    by (intro digit_inj) simp_all
  from "1.prems" have b: "butlast (show_nat m) = butlast (show_nat n)" by simp
  show ?case
  proof (cases "m < 10")
    case True
    with b have "n < 10"
      by (auto simp add: show_nat_butlast show_nat_not_Nil show_nat_not_Nil [symmetric]
          split: if_splits)
    with True r show ?thesis by simp
  next
    case False
    with b have n: "\<not> n < 10"
      by (auto simp add: show_nat_butlast show_nat_not_Nil show_nat_not_Nil [symmetric]
          split: if_splits)
    with False b have "show_nat (m div 10) = show_nat (n div 10)"
      by (simp add: show_nat_butlast)
    with False have "m div 10 = n div 10" by (intro "1.IH") simp_all
    with r show ?thesis by (metis div_mult_mod_eq)
  qed
qed

lemma number_of_nat_inj: "number_of_nat m = number_of_nat n \<longleftrightarrow> m = n"
  by (auto simp add: number_of_nat_def dest: show_nat_inj)

lemma show_nat_0: "show_nat 0 = ''0''"
  by (simp add: show_nat.simps [of 0] digit_def)

lemma show_nat_1: "show_nat (Suc 0) = ''1''"
  by (simp add: show_nat.simps [of "Suc 0"] digit_def)

lemma list_test_devices:
  "fst (homeyApiRequest test_config (resolving (ok_response \<lparr>result = ds\<rparr>))
          ''/api/devices'' ''GET'' Undefined) = Inr \<lparr>result = ds\<rparr>"
  by (simp add: homeyApiRequest_def getHomeyToken_def test_config_def resolving_def
      ok_response_def)

text \<open>
  C6. Every success envelope of \<open>list_devices\<close> carries the JSON object
  \<^verbatim>\<open>{devices, count}\<close> in which \<open>count\<close> is the length of the \<open>devices\<close> array; when the
  request helper returns the upstream list, the array has one entry per upstream device;
  and for an empty upstream list the payload is \<^verbatim>\<open>{devices: [], count: 0}\<close> with no
  \<open>isError\<close> key.
\<close>

theorem list_devices_count:
  "(isError (fst (list_devices cfg fetch)) = None \<longrightarrow>
      (\<exists>ds. payload_of (fst (list_devices cfg fetch)) =
               Some (JObj [(''devices'', JArr ds),
                           (''count'', JNum (number_of_nat (length ds)))])))
   \<and> (fst (homeyApiRequest cfg fetch ''/api/devices'' ''GET'' Undefined) = Inr data \<longrightarrow>
        isError (fst (list_devices cfg fetch)) = None
        \<and> (\<exists>ds. length ds = length (result data)
              \<and> payload_of (fst (list_devices cfg fetch)) =
                  Some (JObj [(''devices'', JArr ds),
                              (''count'', JNum (number_of_nat (length (result data))))])))
   \<and> (fst (homeyApiRequest cfg' fetch' ''/api/devices'' ''GET'' Undefined) = Inr data'
        \<and> result data' = [] \<longrightarrow>
        isError (fst (list_devices cfg' fetch')) = None
        \<and> payload_of (fst (list_devices cfg' fetch')) =
             Some (JObj [(''devices'', JArr []), (''count'', JNum (Number ''0''))]))"
proof (intro conjI impI)
  assume "isError (fst (list_devices cfg fetch)) = None"
  then obtain devices where "fst (list_devices_try cfg fetch) = Inr devices"
    unfolding list_devices_isError_iff by (auto split: sum.splits)
  from list_devices_payload [OF this]
  show "\<exists>ds. payload_of (fst (list_devices cfg fetch)) =
               Some (JObj [(''devices'', JArr ds),
                           (''count'', JNum (number_of_nat (length ds)))])"
    by (intro exI [of _ "stringify_elements devices"]) simp
next
  assume "fst (homeyApiRequest cfg fetch ''/api/devices'' ''GET'' Undefined) = Inr data"
  note t = list_devices_try_Inr [OF this]
  show "isError (fst (list_devices cfg fetch)) = None"
    by (simp add: list_devices_isError_iff t)
  show "\<exists>ds. length ds = length (result data)
              \<and> payload_of (fst (list_devices cfg fetch)) =
                  Some (JObj [(''devices'', JArr ds),
                              (''count'', JNum (number_of_nat (length (result data))))])"
    using list_devices_payload [OF t]
    by (intro exI [of _ "stringify_elements (map normalize_device (result data))"]) simp
next
  assume h: "fst (homeyApiRequest cfg' fetch' ''/api/devices'' ''GET'' Undefined) = Inr data'
        \<and> result data' = []"
  then have t: "fst (list_devices_try cfg' fetch') = Inr []"
    using list_devices_try_Inr [of cfg' fetch' data'] by simp
  show "isError (fst (list_devices cfg' fetch')) = None"
    by (simp add: list_devices_isError_iff t)
  show "payload_of (fst (list_devices cfg' fetch')) =
             Some (JObj [(''devices'', JArr []), (''count'', JNum (Number ''0''))])"
    using list_devices_payload [OF t] by (simp add: number_of_nat_def show_nat_0)
qed

theorem list_devices_count_witness:
  "fst (homeyApiRequest test_config (resolving (ok_response \<lparr>result = [test_device None]\<rparr>))
          ''/api/devices'' ''GET'' Undefined) = Inr \<lparr>result = [test_device None]\<rparr>
   \<and> isError (fst (list_devices test_config
         (resolving (ok_response \<lparr>result = [test_device None]\<rparr>)))) = None
   \<and> payload_field (fst (list_devices test_config
         (resolving (ok_response \<lparr>result = [test_device None]\<rparr>)))) ''count''
       = Some (JNum (Number ''1''))
   \<and> fst (homeyApiRequest test_config (resolving (ok_response \<lparr>result = []\<rparr>))
          ''/api/devices'' ''GET'' Undefined) = Inr \<lparr>result = []\<rparr>
   \<and> isError (fst (list_devices test_config (resolving (ok_response \<lparr>result = []\<rparr>)))) = None
   \<and> payload_of (fst (list_devices test_config (resolving (ok_response \<lparr>result = []\<rparr>))))
       = Some (JObj [(''devices'', JArr []), (''count'', JNum (Number ''0''))])"
proof -
  note inst = list_devices_count [of test_config
      "resolving (ok_response \<lparr>result = [test_device None]\<rparr>)"
      "\<lparr>result = [test_device None]\<rparr>" test_config "resolving (ok_response \<lparr>result = []\<rparr>)"
      "\<lparr>result = []\<rparr>"]
  have one: "fst (homeyApiRequest test_config
      (resolving (ok_response \<lparr>result = [test_device None]\<rparr>))
      ''/api/devices'' ''GET'' Undefined) = Inr \<lparr>result = [test_device None]\<rparr>"
    by (rule list_test_devices)
  have none: "fst (homeyApiRequest test_config (resolving (ok_response \<lparr>result = []\<rparr>))
      ''/api/devices'' ''GET'' Undefined) = Inr \<lparr>result = []\<rparr>"
    by (rule list_test_devices)
  from inst one obtain ds where
    "isError (fst (list_devices test_config
         (resolving (ok_response \<lparr>result = [test_device None]\<rparr>)))) = None"
    "payload_of (fst (list_devices test_config
         (resolving (ok_response \<lparr>result = [test_device None]\<rparr>)))) =
       Some (JObj [(''devices'', JArr ds), (''count'', JNum (number_of_nat (Suc 0)))])"
    by auto
  moreover from inst none have
    "isError (fst (list_devices test_config (resolving (ok_response \<lparr>result = []\<rparr>)))) = None
     \<and> payload_of (fst (list_devices test_config (resolving (ok_response \<lparr>result = []\<rparr>))))
       = Some (JObj [(''devices'', JArr []), (''count'', JNum (Number ''0''))])"
    by simp
  ultimately show ?thesis
    using one none by (simp add: payload_field_def number_of_nat_def show_nat_1)
qed

section \<open>Non-success responses\<close>

lemma api_error_message_parts:
  "sublist (show_nat (status r)) (api_error_message r t)"
  "sublist (statusText r) (api_error_message r t)"
  "sublist t (api_error_message r t)"
proof -
  show "sublist (show_nat (status r)) (api_error_message r t)"
    unfolding api_error_message_def by (rule sublist_appendI)
  have "api_error_message r t =
      (''Homey API request failed: '' @ show_nat (status r) @ '' '') @ statusText r
        @ ('' - '' @ t)"
    by (simp add: api_error_message_def)
  then show "sublist (statusText r) (api_error_message r t)"
    by (metis sublist_appendI)
  have "api_error_message r t =
      (''Homey API request failed: '' @ show_nat (status r) @ '' '' @ statusText r @ '' - '')
        @ t @ []"
    by (simp add: api_error_message_def)
  then show "sublist t (api_error_message r t)"
    by (metis sublist_appendI)
qed

lemma homeyApiRequest_not_ok_fst:
  assumes "credentials_set cfg"
    and "f (request_options cfg (HOMEY_CLIENT_SECRET cfg) endpoint meth bdy) = Inr r"
    and "\<not> ok r"
  shows "fst (homeyApiRequest cfg f endpoint meth bdy) = Inl (non_ok_error r)"
  using homeyApiRequest_not_ok [of cfg f endpoint meth bdy r] assms
  by (simp add: non_ok_error_def split: sum.splits)

lemma non_ok_error_readable [simp]:
  "response_text r = Inr t \<Longrightarrow> non_ok_error r = Error (api_error_message r t)"
  by (simp add: non_ok_error_def)

lemma non_ok_error_unreadable [simp]:
  "response_text r = Inl e \<Longrightarrow> non_ok_error r = e"
  by (simp add: non_ok_error_def)

lemma list_devices_failed_with:
  assumes "fst (list_devices_try cfg fetch) = Inl e"
  shows "isError (fst (list_devices cfg fetch)) = Some True
       \<and> payload_field (fst (list_devices cfg fetch)) ''details'' = Some (JStr (errorMessage e))"
  by (simp add: list_devices_isError_iff assms payload_field_def
      list_devices_failure_payload [OF assms])

lemma list_devices_not_ok:
  assumes "credentials_set cfg" and "fetch (devices_request cfg) = Inr r" and "\<not> ok r"
  shows "fst (list_devices_try cfg fetch) = Inl (non_ok_error r)"
proof -
  have "fst (homeyApiRequest cfg fetch ''/api/devices'' ''GET'' Undefined)
          = Inl (non_ok_error r)"
    using homeyApiRequest_not_ok_fst [of cfg fetch "''/api/devices''" "''GET''" Undefined r] assms
    by (simp add: devices_request_def)
  then show ?thesis
    by (rule list_devices_try_Inl)
qed

lemma set_capability_not_ok:
  assumes "credentials_set cfg"
    and "fetch_capability up (capability_request cfg d cap v) = Inr r" and "\<not> ok r"
  shows "set_capability cfg up d cap v =
           (Inl (non_ok_error r), [capability_request cfg d cap v])"
  using homeyApiRequest_not_ok [of cfg "fetch_capability up"
      "''/api/devices/'' @ d @ ''/capabilities/'' @ cap" "''PUT''"
      "Object [(''value'', prim_js v)]" r] assms
  by (simp add: set_capability_def capability_request_def non_ok_error_def split: sum.splits)

lemma toggle_device_failed_with:
  assumes "fst (toggle_device_try cfg up args) = Inl e"
  shows "isError (fst (toggle_device cfg up args)) = Some True
       \<and> payload_field (fst (toggle_device cfg up args)) ''details''
           = Some (JStr (errorMessage e))"
proof -
  obtain log where t: "toggle_device_try cfg up args = (Inl e, log)"
    using assms by (cases "toggle_device_try cfg up args") simp
  show ?thesis
    unfolding toggle_device_failure [OF t] fst_conv toggle_failure_details by simp
qed

lemma toggle_device_write_not_ok:
  assumes "deviceId args = Some d" and "d \<noteq> []" and "value args = Some v"
    and "credentials_set cfg"
    and "fetch_capability up (capability_request cfg d (capability_of args) v) = Inr r"
    and "\<not> ok r"
  shows "fst (toggle_device_try cfg up args) = Inl (non_ok_error r)"
  unfolding toggle_device_try_explicit [OF assms(1-3)]
    set_capability_not_ok [OF assms(4-6)]
  by simp

lemma toggle_device_read_not_ok:
  assumes "deviceId args = Some d" and "d \<noteq> []" and "value args = None"
    and "credentials_set cfg"
    and "fetch_device up (device_request cfg d) = Inr r"
    and "\<not> ok r"
  shows "fst (toggle_device_try cfg up args) = Inl (non_ok_error r)"
proof -
  have "read_device cfg up d = Inl (non_ok_error r)"
    using homeyApiRequest_not_ok_fst [of cfg "fetch_device up" "''/api/devices/'' @ d" "''GET''"
        Undefined r] assms(4-6)
    by (simp add: read_device_def device_request_def)
  from toggle_device_try_read_failed [OF assms(1-3) this] show ?thesis by simp
qed

lemma toggle_device_write_after_read_not_ok:
  assumes "deviceId args = Some d" and "d \<noteq> []" and "value args = None"
    and "read_device cfg up d = Inr deviceData"
    and "currentValue deviceData (capability_of args) = Some (PBool b)"
    and "fetch_capability up (capability_request cfg d (capability_of args) (PBool (\<not> b)))
           = Inr r"
    and "\<not> ok r"
  shows "fst (toggle_device_try cfg up args) = Inl (non_ok_error r)"
proof -
  have "credentials_set cfg"
    using assms(4) by (rule read_device_Inr_credentials)
  from set_capability_not_ok [OF this assms(6,7)]
  show ?thesis
    unfolding toggle_device_try_boolean [OF assms(1-5)] by simp
qed

lemma show_nat_404: "show_nat 404 = ''404''"
  by (simp add: show_nat.simps [of 404] show_nat.simps [of 40] show_nat.simps [of 4] digit_def)

lemma show_nat_401: "show_nat 401 = ''401''"
  by (simp add: show_nat.simps [of 401] show_nat.simps [of 40] show_nat.simps [of 4] digit_def)

lemma show_nat_500: "show_nat 500 = ''500''"
  by (simp add: show_nat.simps [of 500] show_nat.simps [of 50] show_nat.simps [of 5] digit_def)

lemma show_nat_503: "show_nat 503 = ''503''"
  by (simp add: show_nat.simps [of 503] show_nat.simps [of 50] show_nat.simps [of 5] digit_def)

lemma credentials_test_config [simp]: "credentials_set test_config"
  by (simp add: credentials_set_def test_config_def)

lemma read_write_failing_upstream:
  "read_device test_config (write_failing_upstream caps st stText bodyText) d
     = Inr \<lparr>device_result = test_device caps\<rparr>"
  by (simp add: read_device_def homeyApiRequest_def getHomeyToken_def test_config_def
      write_failing_upstream_def resolving_def ok_response_def)

text \<open>
  C7, as the code has it. When \<^verbatim>\<open>fetch\<close> answers a request of the helper with a response
  that is not \<open>ok\<close> and whose body text can be read, the helper throws an \<^verbatim>\<open>Error\<close> whose
  message is \<^verbatim>\<open>Homey API request failed: <status> <statusText> - <body text>\<close>, so the
  decimal status code, the status text and the body text all occur in it. In
  \<open>list_devices\<close>, and in \<open>toggle_device\<close> for each of its requests (the write of an
  explicit value, the read, the write after a read), that message is the \<open>details\<close> of an
  \<open>isError\<close> envelope, which thus contains the status code. When reading the body text
  rejects, the helper throws what the read rejected with.
\<close>

theorem non_success_status_in_details:
  "(credentials_set cfg
      \<and> fetch (request_options cfg (HOMEY_CLIENT_SECRET cfg) endpoint meth bdy) = Inr r
      \<and> \<not> ok r \<and> response_text r = Inr t \<longrightarrow>
      fst (homeyApiRequest cfg fetch endpoint meth bdy)
        = Inl (Error (''Homey API request failed: '' @ show_nat (status r) @ '' ''
                       @ statusText r @ '' - '' @ t))
      \<and> sublist (show_nat (status r)) (api_error_message r t)
      \<and> sublist (statusText r) (api_error_message r t)
      \<and> sublist t (api_error_message r t))
   \<and> (credentials_set cfg0
      \<and> fetch0 (request_options cfg0 (HOMEY_CLIENT_SECRET cfg0) endpoint0 meth0 bdy0) = Inr r0
      \<and> \<not> ok r0 \<and> response_text r0 = Inl e0 \<longrightarrow>
      fst (homeyApiRequest cfg0 fetch0 endpoint0 meth0 bdy0) = Inl e0)
   \<and> (credentials_set cfg1 \<and> fetch1 (devices_request cfg1) = Inr r1 \<and> \<not> ok r1
      \<and> response_text r1 = Inr t1 \<longrightarrow>
      isError (fst (list_devices cfg1 fetch1)) = Some True
      \<and> payload_field (fst (list_devices cfg1 fetch1)) ''details''
          = Some (JStr (api_error_message r1 t1))
      \<and> sublist (show_nat (status r1)) (api_error_message r1 t1))
   \<and> (credentials_set cfg2 \<and> deviceId args2 = Some d2 \<and> d2 \<noteq> [] \<and> value args2 = Some v2
      \<and> fetch_capability up2 (capability_request cfg2 d2 (capability_of args2) v2) = Inr r2
      \<and> \<not> ok r2 \<and> response_text r2 = Inr t2 \<longrightarrow>
      isError (fst (toggle_device cfg2 up2 args2)) = Some True
      \<and> payload_field (fst (toggle_device cfg2 up2 args2)) ''details''
          = Some (JStr (api_error_message r2 t2))
      \<and> sublist (show_nat (status r2)) (api_error_message r2 t2))
   \<and> (credentials_set cfg3 \<and> deviceId args3 = Some d3 \<and> d3 \<noteq> [] \<and> value args3 = None
      \<and> fetch_device up3 (device_request cfg3 d3) = Inr r3 \<and> \<not> ok r3
      \<and> response_text r3 = Inr t3 \<longrightarrow>
      isError (fst (toggle_device cfg3 up3 args3)) = Some True
      \<and> payload_field (fst (toggle_device cfg3 up3 args3)) ''details''
          = Some (JStr (api_error_message r3 t3))
      \<and> sublist (show_nat (status r3)) (api_error_message r3 t3))
   \<and> (deviceId args4 = Some d4 \<and> d4 \<noteq> [] \<and> value args4 = None
      \<and> read_device cfg4 up4 d4 = Inr deviceData
      \<and> currentValue deviceData (capability_of args4) = Some (PBool b)
      \<and> fetch_capability up4
           (capability_request cfg4 d4 (capability_of args4) (PBool (\<not> b))) = Inr r4
      \<and> \<not> ok r4 \<and> response_text r4 = Inr t4 \<longrightarrow>
      isError (fst (toggle_device cfg4 up4 args4)) = Some True
      \<and> payload_field (fst (toggle_device cfg4 up4 args4)) ''details''
          = Some (JStr (api_error_message r4 t4))
      \<and> sublist (show_nat (status r4)) (api_error_message r4 t4))"
proof (intro conjI impI; (elim conjE)?)
  assume "credentials_set cfg"
    and "fetch (request_options cfg (HOMEY_CLIENT_SECRET cfg) endpoint meth bdy) = Inr r"
    and "\<not> ok r" and "response_text r = Inr t"
  with homeyApiRequest_not_ok_fst [of cfg fetch endpoint meth bdy r]
  show "fst (homeyApiRequest cfg fetch endpoint meth bdy)
        = Inl (Error (''Homey API request failed: '' @ show_nat (status r) @ '' ''
                       @ statusText r @ '' - '' @ t))"
    by (simp add: api_error_message_def)
next
  assume "credentials_set cfg0"
    and "fetch0 (request_options cfg0 (HOMEY_CLIENT_SECRET cfg0) endpoint0 meth0 bdy0) = Inr r0"
    and "\<not> ok r0" and "response_text r0 = Inl e0"
  with homeyApiRequest_not_ok_fst [of cfg0 fetch0 endpoint0 meth0 bdy0 r0]
  show "fst (homeyApiRequest cfg0 fetch0 endpoint0 meth0 bdy0) = Inl e0"
    by simp
next
  assume "credentials_set cfg1" and "fetch1 (devices_request cfg1) = Inr r1" and "\<not> ok r1"
    and "response_text r1 = Inr t1"
  then have "fst (list_devices_try cfg1 fetch1) = Inl (Error (api_error_message r1 t1))"
    using list_devices_not_ok [of cfg1 fetch1 r1] by simp
  note l = list_devices_failed_with [OF this]
  show "isError (fst (list_devices cfg1 fetch1)) = Some True" using l by simp
  show "payload_field (fst (list_devices cfg1 fetch1)) ''details''
          = Some (JStr (api_error_message r1 t1))" using l by simp
next
  assume "credentials_set cfg2" and "deviceId args2 = Some d2" and "d2 \<noteq> []"
    and "value args2 = Some v2"
    and "fetch_capability up2 (capability_request cfg2 d2 (capability_of args2) v2) = Inr r2"
    and "\<not> ok r2" and "response_text r2 = Inr t2"
  then have "fst (toggle_device_try cfg2 up2 args2) = Inl (Error (api_error_message r2 t2))"
    using toggle_device_write_not_ok [of args2 d2 v2 cfg2 up2 r2] by simp
  note l = toggle_device_failed_with [OF this]
  show "isError (fst (toggle_device cfg2 up2 args2)) = Some True" using l by simp
  show "payload_field (fst (toggle_device cfg2 up2 args2)) ''details''
          = Some (JStr (api_error_message r2 t2))" using l by simp
next
  assume "credentials_set cfg3" and "deviceId args3 = Some d3" and "d3 \<noteq> []"
    and "value args3 = None"
    and "fetch_device up3 (device_request cfg3 d3) = Inr r3" and "\<not> ok r3"
    and "response_text r3 = Inr t3"
  then have "fst (toggle_device_try cfg3 up3 args3) = Inl (Error (api_error_message r3 t3))"
    using toggle_device_read_not_ok [of args3 d3 cfg3 up3 r3] by simp
  note l = toggle_device_failed_with [OF this]
  show "isError (fst (toggle_device cfg3 up3 args3)) = Some True" using l by simp
  show "payload_field (fst (toggle_device cfg3 up3 args3)) ''details''
          = Some (JStr (api_error_message r3 t3))" using l by simp
next
  assume "deviceId args4 = Some d4" and "d4 \<noteq> []" and "value args4 = None"
    and "read_device cfg4 up4 d4 = Inr deviceData"
    and "currentValue deviceData (capability_of args4) = Some (PBool b)"
    and "fetch_capability up4
           (capability_request cfg4 d4 (capability_of args4) (PBool (\<not> b))) = Inr r4"
    and "\<not> ok r4" and "response_text r4 = Inr t4"
  then have "fst (toggle_device_try cfg4 up4 args4) = Inl (Error (api_error_message r4 t4))"
    using toggle_device_write_after_read_not_ok [of args4 d4 cfg4 up4 deviceData b r4] by simp
  note l = toggle_device_failed_with [OF this]
  show "isError (fst (toggle_device cfg4 up4 args4)) = Some True" using l by simp
  show "payload_field (fst (toggle_device cfg4 up4 args4)) ''details''
          = Some (JStr (api_error_message r4 t4))" using l by simp
qed (rule api_error_message_parts)+

theorem non_success_status_in_details_witness:
  "credentials_set test_config
   \<and> \<not> ok (error_response 404 ''Not Found'' ''Device not found'' :: json response)
   \<and> fst (homeyApiRequest test_config
            (resolving (error_response 404 ''Not Found'' ''Device not found'') :: json fetch)
            ''/api/devices/invalid-device'' ''GET'' Undefined)
       = Inl (Error ''Homey API request failed: 404 Not Found - Device not found'')
   \<and> fst (homeyApiRequest test_config
            (resolving (unreadable_response 503 ''Service Unavailable'' (Error ''terminated''))
               :: json fetch)
            ''/api/devices/device-1'' ''GET'' Undefined)
       = Inl (Error ''terminated'')
   \<and> payload_field (fst (list_devices test_config
          (resolving (error_response 401 ''Unauthorized'' ''Invalid credentials''))))
        ''details''
       = Some (JStr ''Homey API request failed: 401 Unauthorized - Invalid credentials'')
   \<and> payload_field (fst (toggle_device test_config
          (failing_upstream 404 ''Not Found'' ''Device not found'')
          (toggle_call (Some ''invalid-device'') None (Some (PBool True))))) ''details''
       = Some (JStr ''Homey API request failed: 404 Not Found - Device not found'')
   \<and> payload_field (fst (toggle_device test_config
          (failing_upstream 404 ''Not Found'' ''Device not found'')
          (toggle_call (Some ''invalid-device'') None None))) ''details''
       = Some (JStr ''Homey API request failed: 404 Not Found - Device not found'')
   \<and> read_device test_config
          (write_failing_upstream (Some (test_capabilities (PBool False)))
             500 ''Internal Server Error'' ''write refused'') ''device-1''
       = Inr \<lparr>device_result = test_device (Some (test_capabilities (PBool False)))\<rparr>
   \<and> payload_field (fst (toggle_device test_config
          (write_failing_upstream (Some (test_capabilities (PBool False)))
             500 ''Internal Server Error'' ''write refused'')
          (toggle_call (Some ''device-1'') None None))) ''details''
       = Some (JStr ''Homey API request failed: 500 Internal Server Error - write refused'')"
proof -
  note inst = non_success_status_in_details
    [where cfg = test_config
       and fetch = "resolving (error_response 404 ''Not Found'' ''Device not found'') :: json fetch"
       and endpoint = "''/api/devices/invalid-device''" and meth = "''GET''" and bdy = Undefined
       and r = "error_response 404 ''Not Found'' ''Device not found''"
       and t = "''Device not found''"
       and ?cfg0.0 = test_config
       and ?fetch0.0 = "resolving (unreadable_response 503 ''Service Unavailable''
             (Error ''terminated'')) :: json fetch"
       and ?endpoint0.0 = "''/api/devices/device-1''" and ?meth0.0 = "''GET''"
       and ?bdy0.0 = Undefined
       and ?r0.0 = "unreadable_response 503 ''Service Unavailable'' (Error ''terminated'')"
       and ?e0.0 = "Error ''terminated''"
       and ?cfg1.0 = test_config
       and ?fetch1.0 = "resolving (error_response 401 ''Unauthorized'' ''Invalid credentials'')"
       and ?r1.0 = "error_response 401 ''Unauthorized'' ''Invalid credentials''"
       and ?t1.0 = "''Invalid credentials''"
       and ?cfg2.0 = test_config
       and ?args2.0 = "toggle_call (Some ''invalid-device'') None (Some (PBool True))"
       and ?d2.0 = "''invalid-device''" and ?v2.0 = "PBool True"
       and ?up2.0 = "failing_upstream 404 ''Not Found'' ''Device not found''"
       and ?r2.0 = "error_response 404 ''Not Found'' ''Device not found''"
       and ?t2.0 = "''Device not found''"
       and ?cfg3.0 = test_config
       and ?args3.0 = "toggle_call (Some ''invalid-device'') None None"
       and ?d3.0 = "''invalid-device''"
       and ?up3.0 = "failing_upstream 404 ''Not Found'' ''Device not found''"
       and ?r3.0 = "error_response 404 ''Not Found'' ''Device not found''"
       and ?t3.0 = "''Device not found''"
       and ?cfg4.0 = test_config
       and ?args4.0 = "toggle_call (Some ''device-1'') None None"
       and ?d4.0 = "''device-1''"
       and ?up4.0 = "write_failing_upstream (Some (test_capabilities (PBool False)))
             500 ''Internal Server Error'' ''write refused''"
       and deviceData = "\<lparr>device_result = test_device (Some (test_capabilities (PBool False)))\<rparr>"
       and b = False
       and ?r4.0 = "error_response 500 ''Internal Server Error'' ''write refused''"
       and ?t4.0 = "''write refused''"]
  have msg: "api_error_message (error_response st stText bodyText :: 'a response) t
      = ''Homey API request failed: '' @ show_nat st @ '' '' @ stText @ '' - '' @ t"
    for st stText bodyText t
    by (simp add: api_error_message_def error_response_def)
  have nok: "\<not> ok (error_response st stText bodyText :: 'a response)"
    "\<not> ok (unreadable_response st stText e :: 'a response)" for st stText bodyText e
    by (simp_all add: error_response_def unreadable_response_def)
  have args: "deviceId (toggle_call d c v) = d" "value (toggle_call d c v) = v"
    "capability_of (toggle_call d None v) = ''onoff''" for d c v
    by (simp_all add: toggle_call_def capability_of_def)
  have cur: "currentValue \<lparr>device_result = test_device (Some (test_capabilities (PBool False)))\<rparr>
      ''onoff'' = Some (PBool False)"
    by (simp add: currentValue_def test_device_def test_capabilities_def)
  have up: "fetch_device (failing_upstream st stText bodyText) req
       = Inr (error_response st stText bodyText)"
    "fetch_capability (failing_upstream st stText bodyText) req
       = Inr (error_response st stText bodyText)"
    "fetch_capability (write_failing_upstream caps st stText bodyText) req
       = Inr (error_response st stText bodyText)"
    for st stText bodyText req caps
    by (simp_all add: failing_upstream_def write_failing_upstream_def resolving_def)
  have flds: "status (error_response st stText bodyText :: 'a response) = st"
    "statusText (error_response st stText bodyText :: 'a response) = stText"
    "response_text (error_response st stText bodyText :: 'a response) = Inr bodyText"
    "response_text (unreadable_response st stText e :: 'a response) = Inl e"
    for st stText bodyText e
    by (simp_all add: error_response_def unreadable_response_def)
  show ?thesis
    using inst
    by (simp add: msg nok args cur up flds resolving_def read_write_failing_upstream
        show_nat_404 show_nat_401 show_nat_500)
qed

text \<open>
  The claim as stated promises the status code for every response that is not \<open>ok\<close>. The
  helper awaits \<^verbatim>\<open>response.text()\<close> before it builds its message; when the body of a
  \<open>503\<close> cannot be read and that promise rejects with the error \<open>terminated\<close>, this error
  is what \<open>list_devices\<close> reports, and \<open>503\<close> does not occur in it.
\<close>

theorem unreadable_body_counterexample:
  "\<not> ok (unreadable_response 503 ''Service Unavailable'' (Error ''terminated'')
          :: HomeyDeviceListResponse response)
   \<and> status (unreadable_response 503 ''Service Unavailable'' (Error ''terminated'')
          :: HomeyDeviceListResponse response) = 503
   \<and> show_nat 503 = ''503''
   \<and> fst (homeyApiRequest test_config
          (resolving (unreadable_response 503 ''Service Unavailable'' (Error ''terminated''))
             :: HomeyDeviceListResponse fetch)
          ''/api/devices'' ''GET'' Undefined) = Inl (Error ''terminated'')
   \<and> isError (fst (list_devices test_config
          (resolving (unreadable_response 503 ''Service Unavailable'' (Error ''terminated'')))))
       = Some True
   \<and> payload_field (fst (list_devices test_config
          (resolving (unreadable_response 503 ''Service Unavailable'' (Error ''terminated'')))))
        ''details'' = Some (JStr ''terminated'')
   \<and> \<not> sublist ''503'' ''terminated''"
proof -
  have "\<not> sublist ''503'' ''terminated''"
    by (simp add: sublist_Cons_right)
  then show ?thesis
    by (simp add: show_nat_503 unreadable_response_def resolving_def homeyApiRequest_def
        getHomeyToken_def test_config_def list_devices_def list_devices_try_def
        payload_field_def)
qed

section \<open>\<open>isError\<close> and the failure path\<close>

lemma mock_handler_isError:
  "isError (fst (mock_handler render call c)) =
     (case fst (call c) of Inl m \<Rightarrow> Some True | Inr r \<Rightarrow> None)"
  by (cases "call c") (auto simp add: mock_handler_def split: sum.splits)

lemma mock_handler_failure:
  "fst (call c) = Inl m \<Longrightarrow>
     payload_of (fst (mock_handler render call c)) = Some (JObj [(''error'', JStr m)])"
  by (cases "call c") (auto simp add: mock_handler_def split: sum.splits)

lemma toggleDevice_outcome:
  "fst (toggleDevice dId c) =
     (if dId = ''device-1''
      then Inr \<lparr>toggled_deviceId = dId, deviceName = ''Living Room Light'',
                previousState = PBool True, newState = False\<rparr>
      else if dId = ''device-2'' \<or> dId = ''device-3''
      then Inl (''Device '' @ dId @ '' does not support onoff capability'')
      else Inl (''Device not found: '' @ dId))"
  by (simp add: toggleDevice_def listDevices_def mock_devices_def Let_def)

text \<open>
  C5. In each handler the envelope has \<open>isError: true\<close> exactly when the \<^verbatim>\<open>try\<close> block
  threw, and no \<open>isError\<close> key otherwise: for \<open>list_devices\<close> and \<open>toggle_device\<close> of
  \<^verbatim>\<open>homey.ts\<close> in terms of their \<^verbatim>\<open>try\<close> blocks, for the three handlers of the mock
  variant in terms of the awaited client call. With the mock client as shipped,
  \<open>list_devices\<close> and \<open>list_flows\<close> never fail, and \<open>toggle_device\<close> succeeds for
  \<open>device-1\<close> only.
\<close>

theorem isError_exactly_on_failure:
  "isError (fst (list_devices cfg fetch)) =
     (case fst (list_devices_try cfg fetch) of Inl e \<Rightarrow> Some True | Inr devices \<Rightarrow> None)
   \<and> isError (fst (toggle_device cfg up args)) =
     (case fst (toggle_device_try cfg up args) of Inl e \<Rightarrow> Some True | Inr v \<Rightarrow> None)
   \<and> isError (fst (list_devices_handler devicesCall c)) =
     (case fst (devicesCall c) of Inl m \<Rightarrow> Some True | Inr devices \<Rightarrow> None)
   \<and> isError (fst (toggle_device_handler toggleCall c)) =
     (case fst (toggleCall c) of Inl m \<Rightarrow> Some True | Inr r \<Rightarrow> None)
   \<and> isError (fst (list_flows_handler flowsCall c)) =
     (case fst (flowsCall c) of Inl m \<Rightarrow> Some True | Inr flows \<Rightarrow> None)
   \<and> isError (fst (mock_list_devices c)) = None
   \<and> isError (fst (mock_toggle_device dId c)) =
     (if dId = ''device-1'' then None else Some True)
   \<and> isError (fst (list_flows c)) = None"
proof (intro conjI)
  show "isError (fst (list_devices cfg fetch)) =
     (case fst (list_devices_try cfg fetch) of Inl e \<Rightarrow> Some True | Inr devices \<Rightarrow> None)"
    by (rule list_devices_isError_iff)
  show "isError (fst (toggle_device cfg up args)) =
     (case fst (toggle_device_try cfg up args) of Inl e \<Rightarrow> Some True | Inr v \<Rightarrow> None)"
    by (rule toggle_device_isError_iff)
  show "isError (fst (list_devices_handler devicesCall c)) =
     (case fst (devicesCall c) of Inl m \<Rightarrow> Some True | Inr devices \<Rightarrow> None)"
    unfolding list_devices_handler_def by (rule mock_handler_isError)
  show "isError (fst (toggle_device_handler toggleCall c)) =
     (case fst (toggleCall c) of Inl m \<Rightarrow> Some True | Inr r \<Rightarrow> None)"
    unfolding toggle_device_handler_def by (rule mock_handler_isError)
  show "isError (fst (list_flows_handler flowsCall c)) =
     (case fst (flowsCall c) of Inl m \<Rightarrow> Some True | Inr flows \<Rightarrow> None)"
    unfolding list_flows_handler_def by (rule mock_handler_isError)
  show "isError (fst (mock_list_devices c)) = None"
    by (simp add: mock_list_devices_def list_devices_handler_def mock_handler_isError
        listDevices_def)
  show "isError (fst (mock_toggle_device dId c)) =
     (if dId = ''device-1'' then None else Some True)"
    by (simp add: mock_toggle_device_def toggle_device_handler_def mock_handler_isError
        toggleDevice_outcome)
  show "isError (fst (list_flows c)) = None"
    by (simp add: list_flows_def list_flows_handler_def mock_handler_isError listFlows_def)
qed

section \<open>\<open>list_flows\<close> with the mock client\<close>

text \<open>
  \<open>list_flows\<close> exists in the mock variant only, and the one call in its \<^verbatim>\<open>try\<close> block is
  \<^verbatim>\<open>homeyClient.listFlows()\<close>, which sets the token if need be and returns a literal array.
  So the handler as registered returns the three flows with no \<open>isError\<close> key, from every
  state of the client: no invocation of it reaches the catch block.
\<close>

lemma listFlows_returns: "fst (listFlows c) = Inr mock_flows"
  by (simp add: listFlows_def)

lemma list_flows_returns_flows:
  "isError (fst (list_flows c)) = None
   \<and> payload_of (fst (list_flows c))
       = Some (JObj [(''flows'', JArr (stringify_elements (map flow_js mock_flows)))])"
  by (simp add: list_flows_def list_flows_handler_def mock_handler_def listFlows_def)

text \<open>
  The catch block itself serializes \<^verbatim>\<open>{ error: error.message }\<close>: for a client call that
  throws an \<^verbatim>\<open>Error\<close> with message \<open>m\<close>, the payload has the one key \<open>error\<close>.
\<close>

lemma list_flows_handler_catch:
  assumes "fst (call c) = Inl m"
  shows "isError (fst (list_flows_handler call c)) = Some True
       \<and> payload_of (fst (list_flows_handler call c)) = Some (JObj [(''error'', JStr m)])
       \<and> payload_keys (fst (list_flows_handler call c)) = [''error'']"
  using assms mock_handler_failure [of call c m]
  by (simp add: list_flows_handler_def mock_handler_isError payload_keys_def)

end
